theory Spec2Isabelle
  imports Complex_Main "HOL-Library.Multiset" "HOL-Library.AList" "HOL-Library.Word"
begin

section \<open>Strings and numbers of the host language\<close>

text \<open>
  Strings are \<open>char list\<close>. The string operations of the source are written out for the
  ASCII range, which is what transaction type tags, error messages and base58 addresses
  are made of.
\<close>

definition toUpperChar :: "char \<Rightarrow> char" where
  "toUpperChar c =
     (case map_of (zip ''abcdefghijklmnopqrstuvwxyz'' ''ABCDEFGHIJKLMNOPQRSTUVWXYZ'') c of
        Some u \<Rightarrow> u
      | None \<Rightarrow> c)"

definition toUpperCase :: "string \<Rightarrow> string" where
  "toUpperCase s = map toUpperChar s"

definition toLowerChar :: "char \<Rightarrow> char" where
  "toLowerChar c =
     (case map_of (zip ''ABCDEFGHIJKLMNOPQRSTUVWXYZ'' ''abcdefghijklmnopqrstuvwxyz'') c of
        Some u \<Rightarrow> u
      | None \<Rightarrow> c)"

definition toLowerCase :: "string \<Rightarrow> string" where
  "toLowerCase s = map toLowerChar s"

definition startsWith :: "string \<Rightarrow> string \<Rightarrow> bool" where
  "startsWith s p = (take (length p) s = p)"

text \<open>\<open>s.includes(sub)\<close>: \<open>sub\<close> occurs in \<open>s\<close> as a contiguous run.\<close>

fun str_includes :: "string \<Rightarrow> string \<Rightarrow> bool" where
  "str_includes [] sub = (sub = [])"
| "str_includes (c # cs) sub = (startsWith (c # cs) sub \<or> str_includes cs sub)"

definition isSpace :: "char \<Rightarrow> bool" where
  "isSpace c = (c \<in> set [CHR '' '', CHR 0x09, CHR 0x0A, CHR 0x0B, CHR 0x0C, CHR 0x0D])"

definition trim :: "string \<Rightarrow> string" where
  "trim s = rev (dropWhile isSpace (rev (dropWhile isSpace s)))"

text \<open>
  A JavaScript \<open>number\<close> is an IEEE double: not-a-number, an infinity, or a finite value,
  which is modelled by the real it denotes. Comparisons are the language's: every
  comparison with \<open>NaN\<close> is false. The sum, the difference and the quotient defined
  next are exact on finite values: they serve the running sum of the connected
  percentages and the account age, and no result below depends on how those round. The
  holder percentages are rounded as the language rounds them, by \<open>toDouble\<close> further down.
\<close>

datatype number = NaN | NegInf | Fin real | PosInf

fun num_lt :: "number \<Rightarrow> number \<Rightarrow> bool" where
  "num_lt (Fin a) (Fin b) = (a < b)"
| "num_lt NegInf (Fin b) = True"
| "num_lt NegInf PosInf = True"
| "num_lt (Fin a) PosInf = True"
| "num_lt _ _ = False"

definition num_gt :: "number \<Rightarrow> number \<Rightarrow> bool" where
  "num_gt a b = num_lt b a"

definition num_le :: "number \<Rightarrow> number \<Rightarrow> bool" where
  "num_le a b = (a \<noteq> NaN \<and> b \<noteq> NaN \<and> \<not> num_lt b a)"

definition num_ge :: "number \<Rightarrow> number \<Rightarrow> bool" where
  "num_ge a b = num_le b a"

fun num_add :: "number \<Rightarrow> number \<Rightarrow> number" where
  "num_add (Fin a) (Fin b) = Fin (a + b)"
| "num_add NaN _ = NaN"
| "num_add _ NaN = NaN"
| "num_add PosInf NegInf = NaN"
| "num_add NegInf PosInf = NaN"
| "num_add PosInf _ = PosInf"
| "num_add _ PosInf = PosInf"
| "num_add NegInf _ = NegInf"
| "num_add _ NegInf = NegInf"

fun num_neg :: "number \<Rightarrow> number" where
  "num_neg NaN = NaN"
| "num_neg NegInf = PosInf"
| "num_neg (Fin a) = Fin (- a)"
| "num_neg PosInf = NegInf"

definition num_sub :: "number \<Rightarrow> number \<Rightarrow> number" where
  "num_sub a b = num_add a (num_neg b)"

text \<open>Division by a positive finite constant (\<open>/ 86400\<close>), exact.\<close>

fun num_div_const :: "number \<Rightarrow> real \<Rightarrow> number" where
  "num_div_const (Fin a) c = Fin (a / c)"
| "num_div_const x c = x"

text \<open>
  The double nearest to a real number, as every correctly rounded operation of the
  language returns it (binary64, round to nearest, ties to even): 53 significant bits,
  the smallest spacing \<open>2^-1074\<close>, and an infinity from \<open>2^1024\<close> on. A zero keeps no
  sign here.
\<close>

definition pow2 :: "int \<Rightarrow> real" where
  "pow2 e = (if 0 \<le> e then 2 ^ nat e else 1 / 2 ^ nat (- e))"

definition roundHalfEven :: "real \<Rightarrow> int" where
  "roundHalfEven t =
     (let f = \<lfloor>t\<rfloor>; r = t - real_of_int f
      in if r < 1 / 2 then f else if 1 / 2 < r then f + 1 else if even f then f else f + 1)"

text \<open>The number of binary digits of a positive integer.\<close>

function bitLength :: "int \<Rightarrow> int" where
  "bitLength n = (if n \<le> 0 then 0 else 1 + bitLength (n div 2))"
  by pat_completeness auto
termination
  by (relation "measure nat") auto

declare bitLength.simps [simp del]

text \<open>The \<open>k\<close> with \<open>2^k \<le> a < 2^(k+1)\<close>, for a positive \<open>a\<close>.\<close>

definition binaryExponent :: "real \<Rightarrow> int" where
  "binaryExponent a =
     (if 1 \<le> a then bitLength \<lfloor>a\<rfloor> - 1
      else - bitLength (\<lceil>1 / a\<rceil> - 1))"

definition toDouble :: "real \<Rightarrow> number" where
  "toDouble x =
     (if x = 0 then Fin 0
      else let a = \<bar>x\<bar>;
               e = max (binaryExponent a - 52) (- 1074);
               m = roundHalfEven (a / pow2 e)
           in if 972 \<le> e \<or> (e = 971 \<and> m = 2 ^ 53) then (if 0 < x then PosInf else NegInf)
              else Fin (if 0 < x then real_of_int m * pow2 e else - (real_of_int m * pow2 e)))"

text \<open>
  \<open>Number(q)\<close> of a big integer is the nearest double, and a quotient of a number by a
  positive constant is rounded again.
\<close>

definition numberOfBigInt :: "int \<Rightarrow> number" where
  "numberOfBigInt q = toDouble (real_of_int q)"

fun num_div_rounded :: "number \<Rightarrow> real \<Rightarrow> number" where
  "num_div_rounded (Fin a) c = toDouble (a / c)"
| "num_div_rounded x c = x"

section \<open>Data model\<close>

text \<open>
  The interfaces of the source as records. An optional property (\<open>?:\<close>), a value
  that may be \<open>null\<close> and a property the code itself guards with \<open>?.\<close> or \<open>??\<close> are
  \<open>option\<close>s. Where two interfaces use the same property name, the later record
  carries a short prefix.
\<close>

record NativeTransfer =
  nt_fromUserAccount :: "string option"
  nt_toUserAccount :: "string option"
  nt_amount :: "number option"

record TokenTransfer =
  tt_fromUserAccount :: "string option"
  tt_toUserAccount :: "string option"
  tt_mint :: "string option"

record HeliusTransaction =
  signature :: string
  timestamp :: "number option"
  feePayer :: "string option"
  type :: "string option"
  source :: "string option"
  description :: "string option"
  nativeTransfers :: "NativeTransfer list option"
  tokenTransfers :: "TokenTransfer list option"

record CreatorAnalysis =
  creatorAddress :: string
  creatorFirstTxTimestamp :: "number option"
  accountAgeDays :: "number option"
  totalTxCount :: number
  estimatedTokensCreated :: number
  tokenName :: "string option"
  tokenSymbol :: "string option"
  canMintUnlimited :: "bool option"

datatype FactorSeverity = Critical | Warning | Positive | Neutral

text \<open>
  A factor's \<open>description\<close> is display text rendered with \<open>toFixed\<close> and
  \<open>toLocaleString\<close>; it is left out of the record.
\<close>

record RiskFactor =
  id' :: string
  label :: string
  factorSeverity :: FactorSeverity
  impact :: int

record CreatorConnectedHolder =
  cch_owner :: string
  cch_percent :: number
  firstReceivedAt :: "number option"

record TopHolder =
  th_owner :: string
  amountRaw :: int
  th_percent :: number

record HolderStats =
  totalSupplyRaw :: int
  totalHolders :: number
  top10Percent :: number
  topHolders :: "TopHolder list"
  creatorHoldPercent :: "number option"
  creatorConnectedHolders :: "CreatorConnectedHolder list option"

datatype EmissionStatus = Fixed | Unlimited

record TokenPairInfo =
  quoteSymbol :: string
  pair_liquidityUsd :: number
  dexId :: "string option"
  pairAddress :: "string option"

datatype MigrationStatus = Bonding_curve | Migrated | Amm_only | Unknown

record TokenMarketStats =
  liquidityUsd :: "number option"
  pairs :: "TokenPairInfo list option"
  txCount24h :: "number option"
  buys24h :: "number option"
  sells24h :: "number option"
  uniqueTraders24h :: "number option"
  freshHolders1dPercent :: "number option"
  freshHolders7dPercent :: "number option"
  migrationStatus :: "MigrationStatus option"
  migrationLabel :: "string option"

record CreatorPreviousToken =
  pt_mint :: string
  pt_symbol :: "string option"
  pt_name :: "string option"
  pt_liquidityUsd :: number
  pt_pairs :: "TokenPairInfo list"

datatype Severity = High | Medium | Low

record RiskResult =
  score :: int
  severity :: Severity
  factors :: "RiskFactor list"
  creator :: CreatorAnalysis
  mint :: string
  holderStats :: "HolderStats option"
  emissionStatus :: "EmissionStatus option"
  creatorSold :: "bool option"
  tokenMarket :: "TokenMarketStats option"
  creatorPreviousTokens :: "CreatorPreviousToken list option"

section \<open>Creation-event classification\<close>

text \<open>
  The two taxonomy sets, in insertion order (the order a \<open>Set\<close> is iterated in).
\<close>

definition TOKEN_CREATION_TYPES :: "string list" where
  "TOKEN_CREATION_TYPES =
     [''CREATE'', ''CREATE_MINT_METADATA'', ''CREATE_MASTER_EDITION'', ''TOKEN_MINT'',
      ''MINT_TO'', ''INITIALIZE'', ''INITIALIZE_MINT'', ''NFT_MINT'', ''COMPRESSED_NFT_MINT'']"

definition CREATION_TYPES :: "string list" where
  "CREATION_TYPES =
     [''CREATE'', ''CREATE_MINT_METADATA'', ''TOKEN_MINT'', ''MINT_TO'', ''INITIALIZE'',
      ''INITIALIZE_MINT'', ''NFT_MINT'', ''COMPRESSED_NFT_MINT'']"

text \<open>The loop over a taxonomy set: does some entry match exactly or as a prefix?\<close>

definition matchesPrefix :: "string \<Rightarrow> string \<Rightarrow> bool" where
  "matchesPrefix t prefix = (t = prefix \<or> startsWith t (prefix @ ''_''))"

definition txLooksLikeTokenCreation :: "HeliusTransaction \<Rightarrow> bool" where
  "txLooksLikeTokenCreation tx =
     (let t = toUpperCase (case type tx of None \<Rightarrow> '''' | Some s \<Rightarrow> s) in
      if list_ex (matchesPrefix t) TOKEN_CREATION_TYPES then True
      else if str_includes t ''MINT'' \<or> str_includes t ''CREATE'' \<or> str_includes t ''INITIALIZE''
      then True
      else False)"

definition isCreationTx :: "HeliusTransaction \<Rightarrow> bool" where
  "isCreationTx tx =
     (let t = toUpperCase (case type tx of None \<Rightarrow> '''' | Some s \<Rightarrow> s) in
      if list_ex (matchesPrefix t) CREATION_TYPES then True
      else str_includes t ''MINT'' \<or> str_includes t ''CREATE'' \<or> str_includes t ''INITIALIZE'')"

section \<open>The scorer\<close>

text \<open>
  \<open>computeRiskScore\<close> keeps two local variables, the running \<open>score\<close> and the list of
  \<open>factors\<close>, and runs ten blocks over them in a fixed order. Each block is a function
  on that pair here; the subtraction from the score and the \<open>impact\<close> written into the
  factor are two separate numerals, as they are in the source.
\<close>

type_synonym scoring = "int \<times> RiskFactor list"

definition emissionRule :: "CreatorAnalysis \<Rightarrow> scoring \<Rightarrow> scoring" where
  "emissionRule creatorAnalysis = (\<lambda>(score, factors).
     if canMintUnlimited creatorAnalysis = Some True then
       (score - 20,
        factors @ [\<lparr>id' = ''unlimited_mint'', label = ''Unlimited supply (creator can mint more)'',
                     factorSeverity = Critical, impact = - 20\<rparr>])
     else if canMintUnlimited creatorAnalysis = Some False then
       (score + 10,
        factors @ [\<lparr>id' = ''fixed_supply'', label = ''Fixed supply (mint authority revoked)'',
                     factorSeverity = Positive, impact = 10\<rparr>])
     else (score, factors))"

definition creatorSoldRule :: "HolderStats option \<Rightarrow> scoring \<Rightarrow> scoring" where
  "creatorSoldRule stats = (\<lambda>(score, factors).
     case Option.bind stats creatorHoldPercent of
       None \<Rightarrow> (score, factors)
     | Some p \<Rightarrow>
         if num_lt p (Fin 1) then
           (score - 18,
            factors @ [\<lparr>id' = ''creator_sold'', label = ''Creator sold (or dumped) tokens'',
                         factorSeverity = Critical, impact = - 18\<rparr>])
         else if num_ge p (Fin 10) then
           (score + 8,
            factors @ [\<lparr>id' = ''creator_holds'', label = ''Creator still holds a share'',
                         factorSeverity = Positive, impact = 8\<rparr>])
         else (score, factors))"

definition serialCreatorRule :: "nat \<Rightarrow> scoring \<Rightarrow> scoring" where
  "serialCreatorRule createdCount = (\<lambda>(score, factors).
     if createdCount \<ge> 10 then
       (score - 25,
        factors @ [\<lparr>id' = ''serial_creator'', label = ''Many tokens from same creator'',
                     factorSeverity = Critical, impact = - 25\<rparr>])
     else if createdCount \<ge> 5 then
       (score - 15,
        factors @ [\<lparr>id' = ''multiple_tokens'', label = ''Multiple tokens from creator'',
                     factorSeverity = Warning, impact = - 15\<rparr>])
     else if createdCount \<le> 1 then
       (score + 10,
        factors @ [\<lparr>id' = ''first_or_few'', label = ''First or one of few tokens'',
                     factorSeverity = Positive, impact = 10\<rparr>])
     else (score, factors))"

definition accountAgeRule :: "CreatorAnalysis \<Rightarrow> scoring \<Rightarrow> scoring" where
  "accountAgeRule creatorAnalysis = (\<lambda>(score, factors).
     case accountAgeDays creatorAnalysis of
       None \<Rightarrow> (score, factors)
     | Some ageDays \<Rightarrow>
         if num_lt ageDays (Fin 1) then
           (score - 20,
            factors @ [\<lparr>id' = ''brand_new_account'', label = ''Brand new wallet'',
                         factorSeverity = Critical, impact = - 20\<rparr>])
         else if num_lt ageDays (Fin 7) then
           (score - 10,
            factors @ [\<lparr>id' = ''new_account'', label = ''New wallet'',
                         factorSeverity = Warning, impact = - 10\<rparr>])
         else if num_ge ageDays (Fin 90) then
           (score + 10,
            factors @ [\<lparr>id' = ''established_account'', label = ''Established wallet'',
                         factorSeverity = Positive, impact = 10\<rparr>])
         else (score, factors))"

definition activityRule :: "CreatorAnalysis \<Rightarrow> scoring \<Rightarrow> scoring" where
  "activityRule creatorAnalysis = (\<lambda>(score, factors).
     let totalTx = totalTxCount creatorAnalysis in
     if num_gt totalTx (Fin 500) then
       (score - 5,
        factors @ [\<lparr>id' = ''very_high_activity'', label = ''Very high activity'',
                     factorSeverity = Warning, impact = - 5\<rparr>])
     else (score, factors))"

definition holderCountRule :: "HolderStats option \<Rightarrow> scoring \<Rightarrow> scoring" where
  "holderCountRule stats = (\<lambda>(score, factors).
     case stats of
       None \<Rightarrow> (score, factors)
     | Some hs \<Rightarrow>
         if num_gt (totalHolders hs) (Fin 0) then
           (let n = totalHolders hs in
            if num_le n (Fin 2) then
              (score - 18,
               factors @ [\<lparr>id' = ''very_few_holders'', label = ''Very few holders'',
                            factorSeverity = Critical, impact = - 18\<rparr>])
            else if num_le n (Fin 5) then
              (score - 10,
               factors @ [\<lparr>id' = ''few_holders'', label = ''Few holders'',
                            factorSeverity = Warning, impact = - 10\<rparr>])
            else if num_le n (Fin 15) then
              (score - 4,
               factors @ [\<lparr>id' = ''low_holder_count'', label = ''Low holder count'',
                            factorSeverity = Warning, impact = - 4\<rparr>])
            else (score, factors))
         else (score, factors))"

definition concentrationRule :: "HolderStats option \<Rightarrow> scoring \<Rightarrow> scoring" where
  "concentrationRule stats = (\<lambda>(score, factors).
     case stats of
       None \<Rightarrow> (score, factors)
     | Some hs \<Rightarrow>
         if num_ge (top10Percent hs) (Fin 0) then
           (if num_ge (top10Percent hs) (Fin 80) then
              (score - 15,
               factors @ [\<lparr>id' = ''extreme_concentration'',
                            label = ''Extreme top-holder concentration'',
                            factorSeverity = Critical, impact = - 15\<rparr>])
            else if num_ge (top10Percent hs) (Fin 50) then
              (score - 8,
               factors @ [\<lparr>id' = ''high_concentration'',
                            label = ''High top-holder concentration'',
                            factorSeverity = Warning, impact = - 8\<rparr>])
            else if num_le (top10Percent hs) (Fin 30) \<and> num_ge (totalHolders hs) (Fin 100) then
              (score + 5,
               factors @ [\<lparr>id' = ''distributed_holders'', label = ''Distributed ownership'',
                            factorSeverity = Positive, impact = 5\<rparr>])
            else (score, factors))
         else (score, factors))"

definition connectedRule :: "HolderStats option \<Rightarrow> scoring \<Rightarrow> scoring" where
  "connectedRule stats = (\<lambda>(score, factors).
     let connected = (case Option.bind stats creatorConnectedHolders of
                        None \<Rightarrow> [] | Some hs \<Rightarrow> hs) in
     if length connected > 0 then
       (let totalTop10ConnectedPercent =
              foldl (\<lambda>s h. num_add s (cch_percent h)) (Fin 0) connected in
        if length connected \<ge> 3 \<or> num_ge totalTop10ConnectedPercent (Fin 20) then
          (score - 14,
           factors @ [\<lparr>id' = ''creator_connected_holders'',
                        label = ''Top holders linked to creator'',
                        factorSeverity = Critical, impact = - 14\<rparr>])
        else
          (score - 6,
           factors @ [\<lparr>id' = ''creator_connected_holders'',
                        label = ''Some top holders linked to creator'',
                        factorSeverity = Warning, impact = - 6\<rparr>]))
     else (score, factors))"

definition liquidityRule :: "TokenMarketStats option \<Rightarrow> scoring \<Rightarrow> scoring" where
  "liquidityRule market = (\<lambda>(score, factors).
     case Option.bind market liquidityUsd of
       None \<Rightarrow> (score, factors)
     | Some usd \<Rightarrow>
         if num_ge usd (Fin 0) then
           (if num_lt usd (Fin 2000) then
              (score - 12,
               factors @ [\<lparr>id' = ''low_liquidity'', label = ''Very low liquidity'',
                            factorSeverity = Critical, impact = - 12\<rparr>])
            else if num_lt usd (Fin 10000) then
              (score - 5,
               factors @ [\<lparr>id' = ''moderate_liquidity'', label = ''Low liquidity'',
                            factorSeverity = Warning, impact = - 5\<rparr>])
            else if num_ge usd (Fin 50000) then
              (score + 5,
               factors @ [\<lparr>id' = ''good_liquidity'', label = ''Decent liquidity'',
                            factorSeverity = Positive, impact = 5\<rparr>])
            else (score, factors))
         else (score, factors))"

definition freshHoldersRule :: "TokenMarketStats option \<Rightarrow> scoring \<Rightarrow> scoring" where
  "freshHoldersRule market = (\<lambda>(score, factors).
     if Option.bind market freshHolders1dPercent \<noteq> None
        \<or> Option.bind market freshHolders7dPercent \<noteq> None then
       (let fresh1d = (case Option.bind market freshHolders1dPercent of
                         None \<Rightarrow> Fin 0 | Some x \<Rightarrow> x);
            fresh7d = (case Option.bind market freshHolders7dPercent of
                         None \<Rightarrow> Fin 0 | Some x \<Rightarrow> x) in
        if num_gt fresh1d (Fin 50) \<or> num_gt fresh7d (Fin 70) then
          (score - 5,
           factors @ [\<lparr>id' = ''very_fresh_holders'',
                        label = ''Very high share of new holders'',
                        factorSeverity = Warning, impact = - 5\<rparr>])
        else (score, factors))
     else (score, factors))"

text \<open>The ten blocks in the order of the source, from the base score 50 and no factors.\<close>

definition applyRules ::
  "CreatorAnalysis \<Rightarrow> nat \<Rightarrow> HolderStats option \<Rightarrow> TokenMarketStats option \<Rightarrow> scoring" where
  "applyRules creatorAnalysis createdCount stats market =
     freshHoldersRule market
       (liquidityRule market
         (connectedRule stats
           (concentrationRule stats
             (holderCountRule stats
               (activityRule creatorAnalysis
                 (accountAgeRule creatorAnalysis
                   (serialCreatorRule createdCount
                     (creatorSoldRule stats
                       (emissionRule creatorAnalysis (50, []))))))))))"

text \<open>
  \<open>computeRiskScore\<close> writes \<open>estimatedTokensCreated\<close> into the creator analysis it was
  given and returns that object in the result; the model returns the updated record.
\<close>

definition computeRiskScore ::
  "string \<Rightarrow> CreatorAnalysis \<Rightarrow> HeliusTransaction list \<Rightarrow> HolderStats option
     \<Rightarrow> TokenMarketStats option \<Rightarrow> RiskResult" where
  "computeRiskScore mint0 creatorAnalysis creatorTxs stats market =
     (let emissionStatus0 =
            (if canMintUnlimited creatorAnalysis = Some True then Unlimited else Fixed);
          creatorSold0 =
            (case Option.bind stats creatorHoldPercent of
               None \<Rightarrow> False | Some p \<Rightarrow> num_lt p (Fin 1));
          createdCount = length (filter txLooksLikeTokenCreation creatorTxs);
          creatorAnalysis1 =
            creatorAnalysis\<lparr>estimatedTokensCreated := Fin (real (max createdCount 1))\<rparr>;
          (score0, factors0) = applyRules creatorAnalysis1 createdCount stats market;
          score1 = max 0 (min 100 score0);
          severity0 = (if score1 \<le> 30 then High else if score1 \<le> 60 then Medium else Low)
      in \<lparr>score = score1, severity = severity0, factors = factors0,
           creator = creatorAnalysis1, mint = mint0, holderStats = stats,
           emissionStatus = Some emissionStatus0, creatorSold = Some creatorSold0,
           tokenMarket = market, creatorPreviousTokens = None\<rparr>)"

text \<open>The quantity every block keeps fixed: the score less the impacts emitted so far.\<close>

definition balance :: "scoring \<Rightarrow> int" where
  "balance st = fst st - sum_list (map impact (snd st))"

text \<open>The creation count of a sample, and the creator analysis with that count written in.\<close>

abbreviation counted :: "HeliusTransaction list \<Rightarrow> nat" where
  "counted txs \<equiv> length (filter txLooksLikeTokenCreation txs)"

abbreviation stamped :: "CreatorAnalysis \<Rightarrow> HeliusTransaction list \<Rightarrow> CreatorAnalysis" where
  "stamped ca txs \<equiv> ca\<lparr>estimatedTokensCreated := Fin (real (max (counted txs) 1))\<rparr>"

section \<open>The collector\<close>

subsection \<open>The outside world\<close>

text \<open>
  A thrown value is an \<open>Error\<close> with its message, or something that is not an
  \<open>Error\<close>. A call that may throw returns a sum, the thrown value on the left.
\<close>

datatype js_exn = Error string | NonError

datatype SortOrder = Asc | Desc

record AssetMetadata =
  md_name :: "string option"
  md_symbol :: "string option"

record TokenInfo =
  ti_supply :: "string option"
  ti_decimals :: "number option"
  mint_authority :: "string option"

text \<open>
  \<open>content_metadata\<close> is \<open>content?.metadata\<close>. A \<open>mint_authority\<close> that is \<open>null\<close> or
  missing is \<open>None\<close>.
\<close>

record Asset =
  asset_id :: string
  creators :: "string list option"
  content_metadata :: "AssetMetadata option"
  token_info :: "TokenInfo option"

text \<open>
  The reply to \<open>getAccountInfo\<close>: whether it carries an \<open>error\<close>, and the bytes that
  \<open>result.value.data\<close> decodes to from base64 (an empty text decodes to no bytes).
\<close>

record AccountInfoReply =
  reply_error :: bool
  reply_data :: "8 word list option"

record TokenAccountHolder =
  owner :: string
  amount :: string

record DexData =
  dex_liquidityUsd :: "number option"
  dex_txCount24h :: "number option"
  dex_buys24h :: "number option"
  dex_sells24h :: "number option"
  dex_pairs :: "TokenPairInfo list option"
  dex_migrationStatus :: "MigrationStatus option"
  dex_migrationLabel :: "string option"

text \<open>
  Everything a request reads from outside: the environment variable, what each HTTP
  exchange of the Helius client yields once the key is known (the decoded reply, or the
  value thrown by \<open>fetch\<close>, \<open>res.json()\<close> or the client's own status checks), the record
  \<open>fetchDexScreenerData\<close> returns (it catches every exception itself), the value the
  guarded Birdeye block leaves in \<open>uniqueTraders24h\<close>, the clock, and which of the two
  concurrent creator-history promises settles first.
\<close>

record Env =
  HELIUS_API_KEY :: "string option"
  httpTransactions :: "string \<Rightarrow> SortOrder \<Rightarrow> nat \<Rightarrow> js_exn + HeliusTransaction list"
  httpAsset :: "string \<Rightarrow> js_exn + Asset option"
  httpAccountInfo :: "string \<Rightarrow> js_exn + AccountInfoReply"
  httpTokenAccounts :: "string \<Rightarrow> nat \<Rightarrow> js_exn + TokenAccountHolder list \<times> number"
  fetchDexScreenerData :: "string \<Rightarrow> DexData"
  birdeyeUniqueWallet24h :: "number option"
  dateNow :: real
  descSettlesFirst :: bool

subsection \<open>The Helius client\<close>

definition PLACEHOLDER_KEY :: string where
  "PLACEHOLDER_KEY = ''your_helius_api_key_here''"

definition getApiKey :: "Env \<Rightarrow> js_exn + string" where
  "getApiKey env =
     (case HELIUS_API_KEY env of
        None \<Rightarrow> Inl (Error ''HELIUS_API_KEY is not set. Add it to .env'')
      | Some raw \<Rightarrow>
          if raw = [] then Inl (Error ''HELIUS_API_KEY is not set. Add it to .env'')
          else let key = trim raw in
            if key = [] then Inl (Error ''HELIUS_API_KEY is empty in .env'')
            else if key = PLACEHOLDER_KEY \<or> toLowerCase key = toLowerCase PLACEHOLDER_KEY then
              Inl (Error (''.env contains the placeholder key. Replace your_helius_api_key_here''
                          @ '' with your key from https://dashboard.helius.dev''))
            else Inr key)"

definition getTransactionsByAddress ::
  "Env \<Rightarrow> string \<Rightarrow> SortOrder \<Rightarrow> nat \<Rightarrow> js_exn + HeliusTransaction list" where
  "getTransactionsByAddress env address sortOrder limit =
     (case getApiKey env of
        Inl e \<Rightarrow> Inl e
      | Inr apiKey \<Rightarrow> httpTransactions env address sortOrder limit)"

definition getAsset :: "Env \<Rightarrow> string \<Rightarrow> js_exn + Asset option" where
  "getAsset env mintAddress =
     (case getApiKey env of
        Inl e \<Rightarrow> Inl e
      | Inr apiKey \<Rightarrow> httpAsset env mintAddress)"

definition MINT_AUTHORITY_OPTION_OFFSET :: nat where
  "MINT_AUTHORITY_OPTION_OFFSET = 10"

definition getMintAuthoritySet :: "Env \<Rightarrow> string \<Rightarrow> js_exn + bool option" where
  "getMintAuthoritySet env mintAddress =
     (case getApiKey env of
        Inl e \<Rightarrow> Inl e
      | Inr apiKey \<Rightarrow>
          (case httpAccountInfo env mintAddress of
             Inl e \<Rightarrow> Inl e
           | Inr json \<Rightarrow>
               if reply_error json then Inr None
               else (case reply_data json of
                       None \<Rightarrow> Inr None
                     | Some buf \<Rightarrow>
                         if length buf < MINT_AUTHORITY_OPTION_OFFSET + 1 then Inr None
                         else Inr (Some (buf ! MINT_AUTHORITY_OPTION_OFFSET = 1)))))"

definition getTokenAccountsByMint ::
  "Env \<Rightarrow> string \<Rightarrow> nat \<Rightarrow> js_exn + TokenAccountHolder list \<times> number" where
  "getTokenAccountsByMint env mintAddress limit =
     (case getApiKey env of
        Inl e \<Rightarrow> Inl e
      | Inr apiKey \<Rightarrow> httpTokenAccounts env mintAddress limit)"

subsection \<open>Transfers out of the creator wallet\<close>

text \<open>
  \<open>receivedBy\<close> is a \<open>Map\<close> that is only asked \<open>has\<close> and \<open>get\<close>: a partial function.
  A recipient is entered once, by the first transfer the loops meet.
\<close>

definition noteNative ::
  "string \<Rightarrow> number \<Rightarrow> (string \<rightharpoonup> number) \<Rightarrow> NativeTransfer \<Rightarrow> (string \<rightharpoonup> number)" where
  "noteNative creator0 ts receivedBy t =
     (case nt_toUserAccount t of
        None \<Rightarrow> receivedBy
      | Some to \<Rightarrow>
          if nt_fromUserAccount t = Some creator0 \<and> to \<noteq> [] then
            (if receivedBy to = None then receivedBy(to \<mapsto> ts) else receivedBy)
          else receivedBy)"

definition noteToken ::
  "string \<Rightarrow> number \<Rightarrow> (string \<rightharpoonup> number) \<Rightarrow> TokenTransfer \<Rightarrow> (string \<rightharpoonup> number)" where
  "noteToken creator0 ts receivedBy t =
     (case tt_toUserAccount t of
        None \<Rightarrow> receivedBy
      | Some to \<Rightarrow>
          if tt_fromUserAccount t = Some creator0 \<and> to \<noteq> [] then
            (if receivedBy to = None then receivedBy(to \<mapsto> ts) else receivedBy)
          else receivedBy)"

definition noteTx ::
  "string \<Rightarrow> (string \<rightharpoonup> number) \<Rightarrow> HeliusTransaction \<Rightarrow> (string \<rightharpoonup> number)" where
  "noteTx creator0 receivedBy tx =
     (let ts = (case timestamp tx of None \<Rightarrow> Fin 0 | Some x \<Rightarrow> x);
          afterNative = (case nativeTransfers tx of
                           None \<Rightarrow> receivedBy
                         | Some ts' \<Rightarrow> foldl (noteNative creator0 ts) receivedBy ts')
      in case tokenTransfers tx of
           None \<Rightarrow> afterNative
         | Some ts' \<Rightarrow> foldl (noteToken creator0 ts) afterNative ts')"

definition getWalletsReceivedFromCreator ::
  "HeliusTransaction list \<Rightarrow> string \<Rightarrow> (string \<rightharpoonup> number)" where
  "getWalletsReceivedFromCreator creatorTxs creatorAddress0 =
     foldl (noteTx creatorAddress0) Map.empty creatorTxs"

subsection \<open>Holder distribution\<close>

text \<open>
  \<open>BigInt(text)\<close> on a string: surrounding white space is dropped; the empty text is
  zero; \<open>0x\<close>, \<open>0o\<close> and \<open>0b\<close> introduce unsigned hexadecimal, octal and binary digits;
  otherwise the text is decimal digits with an optional sign. Anything else throws a
  \<open>SyntaxError\<close>, which is \<open>None\<close> here.
\<close>

definition digitValue :: "char \<Rightarrow> nat option" where
  "digitValue c = map_of (zip ''0123456789abcdef'' [0..<16]) (toLowerChar c)"

fun parseDigits :: "nat \<Rightarrow> string \<Rightarrow> nat \<Rightarrow> nat option" where
  "parseDigits b [] acc = Some acc"
| "parseDigits b (c # cs) acc =
     (case digitValue c of
        None \<Rightarrow> None
      | Some d \<Rightarrow> if d < b then parseDigits b cs (acc * b + d) else None)"

definition parseNat :: "nat \<Rightarrow> string \<Rightarrow> nat option" where
  "parseNat b ds = (if ds = [] then None else parseDigits b ds 0)"

definition BigInt :: "string \<Rightarrow> int option" where
  "BigInt text0 =
     (let s = trim text0 in
      if s = [] then Some 0
      else if startsWith s ''0x'' \<or> startsWith s ''0X'' then map_option int (parseNat 16 (drop 2 s))
      else if startsWith s ''0o'' \<or> startsWith s ''0O'' then map_option int (parseNat 8 (drop 2 s))
      else if startsWith s ''0b'' \<or> startsWith s ''0B'' then map_option int (parseNat 2 (drop 2 s))
      else if startsWith s ''-'' then map_option (\<lambda>n. - int n) (parseNat 10 (drop 1 s))
      else if startsWith s ''+'' then map_option int (parseNat 10 (drop 1 s))
      else map_option int (parseNat 10 s))"

text \<open>Division of big integers rounds towards zero.\<close>

definition bigint_div :: "int \<Rightarrow> int \<Rightarrow> int" where
  "bigint_div a b = sgn a * sgn b * (\<bar>a\<bar> div \<bar>b\<bar>)"

text \<open>
  \<open>Number((x * BigInt(10000)) / totalSupplyRaw) / 100\<close>, which the source writes out
  three times: the share in hundredths of a percent as a big integer, then that integer
  as a double, then the double divided by 100.
\<close>

definition basisPoints :: "int \<Rightarrow> int \<Rightarrow> int" where
  "basisPoints x totalSupply = bigint_div (x * 10000) totalSupply"

definition percentOfSupply :: "int \<Rightarrow> int \<Rightarrow> number" where
  "percentOfSupply x totalSupply =
     num_div_rounded (numberOfBigInt (basisPoints x totalSupply)) 100"

text \<open>
  \<open>byOwner\<close> is a \<open>Map\<close> whose entries are later listed in insertion order: an
  association list, where \<open>set\<close> on a key already present keeps the key's place.
  A balance that \<open>BigInt\<close> rejects throws out of the loop.
\<close>

fun aggregateByOwner ::
  "TokenAccountHolder list \<Rightarrow> (string \<times> int) list \<Rightarrow> (string \<times> int) list option" where
  "aggregateByOwner [] byOwner = Some byOwner"
| "aggregateByOwner (a # rest) byOwner =
     (if owner a = [] then aggregateByOwner rest byOwner
      else case BigInt (amount a) of
             None \<Rightarrow> None
           | Some amt \<Rightarrow>
               aggregateByOwner rest
                 (AList.update (owner a)
                    ((case map_of byOwner (owner a) of None \<Rightarrow> 0 | Some v \<Rightarrow> v) + amt)
                    byOwner))"

text \<open>
  The positive balances, largest first. \<open>Array.prototype.sort\<close> is stable, and so is
  \<open>sort_key\<close>.
\<close>

definition sortedHolders :: "(string \<times> int) list \<Rightarrow> (string \<times> int) list" where
  "sortedHolders byOwner = sort_key (\<lambda>(k, v). - v) (filter (\<lambda>(k, v). v > 0) byOwner)"

definition connectedHolders ::
  "TopHolder list \<Rightarrow> (string \<rightharpoonup> number) \<Rightarrow> CreatorConnectedHolder list" where
  "connectedHolders topHoldersList receivedFromCreator =
     map (\<lambda>h. \<lparr>cch_owner = th_owner h, cch_percent = th_percent h,
                firstReceivedAt = receivedFromCreator (th_owner h)\<rparr>)
       (filter (\<lambda>h. receivedFromCreator (th_owner h) \<noteq> None) topHoldersList)"

definition holderStatsOf ::
  "(string \<times> int) list \<Rightarrow> HeliusTransaction list \<Rightarrow> string \<Rightarrow> HolderStats option" where
  "holderStatsOf byOwner creatorTxsDesc creatorAddress0 =
     (let sorted0 = sortedHolders byOwner;
          totalSupplyRaw0 = sum_list (map snd sorted0)
      in if totalSupplyRaw0 > 0 \<and> length sorted0 > 0 then
           (let top10 = take 10 sorted0;
                top10Sum = sum_list (map snd top10);
                top10Percent0 = percentOfSupply top10Sum totalSupplyRaw0;
                creatorBalance = (case map_of byOwner creatorAddress0 of None \<Rightarrow> 0 | Some v \<Rightarrow> v);
                creatorHoldPercent0 = percentOfSupply creatorBalance totalSupplyRaw0;
                topHoldersList =
                  map (\<lambda>(k, v). \<lparr>th_owner = k, amountRaw = v,
                                  th_percent = percentOfSupply v totalSupplyRaw0\<rparr>) top10;
                receivedFromCreator = getWalletsReceivedFromCreator creatorTxsDesc creatorAddress0;
                connected = connectedHolders topHoldersList receivedFromCreator
            in Some \<lparr>totalSupplyRaw = totalSupplyRaw0,
                      totalHolders = Fin (real (length sorted0)),
                      top10Percent = top10Percent0,
                      topHolders = topHoldersList,
                      creatorHoldPercent = Some creatorHoldPercent0,
                      creatorConnectedHolders =
                        (if length connected > 0 then Some connected else None)\<rparr>)
         else None)"

text \<open>The guarded block: a throw of the fetch or of \<open>BigInt\<close> leaves the statistics absent.\<close>

definition holderBlock :: "Env \<Rightarrow> string \<Rightarrow> HeliusTransaction list \<Rightarrow> string \<Rightarrow> HolderStats option" where
  "holderBlock env mint0 creatorTxsDesc creatorAddress0 =
     (case getTokenAccountsByMint env mint0 1000 of
        Inl e \<Rightarrow> None
      | Inr (token_accounts, totalAccounts) \<Rightarrow>
          (case aggregateByOwner token_accounts [] of
             None \<Rightarrow> None
           | Some byOwner \<Rightarrow> holderStatsOf byOwner creatorTxsDesc creatorAddress0))"

subsection \<open>Sibling tokens and market data\<close>

definition BASE58 :: string where
  "BASE58 = ''123456789ABCDEFGHJKLMNPQRSTUVWXYZabcdefghijkmnopqrstuvwxyz''"

definition isValidSolanaAddress :: "string \<Rightarrow> bool" where
  "isValidSolanaAddress v =
     (if v = [] then False
      else let trimmed = trim v in
        length trimmed \<ge> 32 \<and> length trimmed \<le> 44 \<and> list_all (\<lambda>c. c \<in> set BASE58) trimmed)"

definition addMint :: "string \<Rightarrow> string list \<Rightarrow> TokenTransfer \<Rightarrow> string list" where
  "addMint currentMint mints t =
     (case map_option trim (tt_mint t) of
        None \<Rightarrow> mints
      | Some m \<Rightarrow>
          if m \<noteq> [] \<and> m \<noteq> currentMint \<and> isValidSolanaAddress m then
            (if m \<in> set mints then mints else mints @ [m])
          else mints)"

definition getOtherMintsFromCreatorTxs ::
  "HeliusTransaction list \<Rightarrow> string \<Rightarrow> nat \<Rightarrow> string list" where
  "getOtherMintsFromCreatorTxs txs currentMint limit =
     take limit
       (foldl (\<lambda>mints tx.
                 if \<not> isCreationTx tx then mints
                 else foldl (addMint currentMint) mints
                        (case tokenTransfers tx of None \<Rightarrow> [] | Some ts \<Rightarrow> ts))
          [] txs)"

definition previousToken :: "Env \<Rightarrow> string \<Rightarrow> CreatorPreviousToken" where
  "previousToken env otherMint =
     (let otherDex = fetchDexScreenerData env otherMint;
          md = (case getAsset env otherMint of
                  Inl e \<Rightarrow> None
                | Inr None \<Rightarrow> None
                | Inr (Some asset) \<Rightarrow> content_metadata asset)
      in \<lparr>pt_mint = otherMint,
           pt_symbol = Option.bind md md_symbol,
           pt_name = Option.bind md md_name,
           pt_liquidityUsd = (case dex_liquidityUsd otherDex of None \<Rightarrow> Fin 0 | Some x \<Rightarrow> x),
           pt_pairs = (case dex_pairs otherDex of None \<Rightarrow> [] | Some ps \<Rightarrow> ps)\<rparr>)"

definition tokenMarketOf :: "Env \<Rightarrow> string \<Rightarrow> TokenMarketStats option" where
  "tokenMarketOf env mint0 =
     (let dexData = fetchDexScreenerData env mint0;
          uniqueTraders = birdeyeUniqueWallet24h env
      in if dex_liquidityUsd dexData \<noteq> None \<or> dex_txCount24h dexData \<noteq> None
            \<or> dex_pairs dexData \<noteq> None \<or> dex_migrationStatus dexData \<noteq> None
            \<or> uniqueTraders \<noteq> None
         then Some \<lparr>liquidityUsd = dex_liquidityUsd dexData,
                     pairs = dex_pairs dexData,
                     txCount24h = dex_txCount24h dexData,
                     buys24h = dex_buys24h dexData,
                     sells24h = dex_sells24h dexData,
                     uniqueTraders24h = uniqueTraders,
                     freshHolders1dPercent = None,
                     freshHolders7dPercent = None,
                     migrationStatus = dex_migrationStatus dexData,
                     migrationLabel = dex_migrationLabel dexData\<rparr>
         else None)"

subsection \<open>The request handler\<close>

text \<open>A response is \<open>NextResponse.json\<close> of an error body with its status, or of the result.\<close>

datatype Response = JsonError string nat | JsonResult RiskResult

text \<open>
  The first guarded block: name, symbol and mint authority from the asset. A throw of
  \<open>getAsset\<close> is swallowed and leaves all three undefined.
\<close>

definition assetBlock :: "Env \<Rightarrow> string \<Rightarrow> string option \<times> string option \<times> bool option" where
  "assetBlock env mint0 =
     (case getAsset env mint0 of
        Inl e \<Rightarrow> (None, None, None)
      | Inr None \<Rightarrow> (None, None, None)
      | Inr (Some asset) \<Rightarrow>
          (Option.bind (content_metadata asset) md_name,
           Option.bind (content_metadata asset) md_symbol,
           (case token_info asset of
              None \<Rightarrow> None
            | Some info \<Rightarrow>
                Some (case mint_authority info of
                        None \<Rightarrow> False
                      | Some ma \<Rightarrow> length ma > 0 \<and> ma \<noteq> ''null''))))"

text \<open>The fallback is outside that block: what \<open>getMintAuthoritySet\<close> throws goes on.\<close>

definition mintAuthorityBlock :: "Env \<Rightarrow> string \<Rightarrow> bool option \<Rightarrow> js_exn + bool option" where
  "mintAuthorityBlock env mint0 fromAsset =
     (if fromAsset = None then
        (case getMintAuthoritySet env mint0 of
           Inl e \<Rightarrow> Inl e
         | Inr authoritySet \<Rightarrow> Inr authoritySet)
      else Inr fromAsset)"

text \<open>
  \<open>Promise.all\<close> of two promises: both values, or the rejection that came first.
\<close>

definition promiseAll2 :: "bool \<Rightarrow> js_exn + 'a \<Rightarrow> js_exn + 'b \<Rightarrow> js_exn + 'a \<times> 'b" where
  "promiseAll2 secondFirst p q =
     (case p of
        Inr a \<Rightarrow> (case q of Inr b \<Rightarrow> Inr (a, b) | Inl e2 \<Rightarrow> Inl e2)
      | Inl e1 \<Rightarrow> (case q of Inr b \<Rightarrow> Inl e1 | Inl e2 \<Rightarrow> Inl (if secondFirst then e2 else e1)))"

definition first :: "'a list \<Rightarrow> 'a option" where
  "first xs = (case xs of [] \<Rightarrow> None | x # rest \<Rightarrow> Some x)"

definition orElse :: "'a option \<Rightarrow> 'a option \<Rightarrow> 'a option" where
  "orElse a b = (case a of None \<Rightarrow> b | Some x \<Rightarrow> Some x)"

text \<open>
  Everything after the creator history is in hand. Nothing in this part throws past its
  own guard.
\<close>

definition assemble ::
  "Env \<Rightarrow> string \<Rightarrow> string option \<Rightarrow> string option \<Rightarrow> bool option \<Rightarrow> string
     \<Rightarrow> number option \<Rightarrow> HeliusTransaction list \<Rightarrow> HeliusTransaction list \<Rightarrow> RiskResult" where
  "assemble env mint0 tokenName0 tokenSymbol0 canMint creatorAddress0 creatorFirstTxTimestamp0
       creatorTxsAsc creatorTxsDesc =
     (let accountFirstTimestamp =
            orElse (Option.bind (first creatorTxsAsc) timestamp) creatorFirstTxTimestamp0;
          accountAgeDays0 =
            map_option (\<lambda>t. num_div_const (num_sub (Fin (dateNow env / 1000)) t) 86400)
              accountFirstTimestamp;
          creatorAnalysis =
            \<lparr>creatorAddress = creatorAddress0,
             creatorFirstTxTimestamp = orElse creatorFirstTxTimestamp0 accountFirstTimestamp,
             accountAgeDays = accountAgeDays0,
             totalTxCount = Fin (real (length creatorTxsDesc)),
             estimatedTokensCreated = Fin 0,
             tokenName = tokenName0,
             tokenSymbol = tokenSymbol0,
             canMintUnlimited = canMint\<rparr>;
          stats = holderBlock env mint0 creatorTxsDesc creatorAddress0;
          market = tokenMarketOf env mint0;
          otherMints = getOtherMintsFromCreatorTxs creatorTxsDesc mint0 8;
          previous = map (previousToken env) otherMints;
          result = computeRiskScore mint0 creatorAnalysis creatorTxsDesc stats market
      in result\<lparr>creatorPreviousTokens := (if length previous > 0 then Some previous else None)\<rparr>)"

text \<open>
  The body of the outer \<open>try\<close>: a response, or the value thrown to the outer \<open>catch\<close>.
\<close>

definition analyze :: "Env \<Rightarrow> string \<Rightarrow> js_exn + Response" where
  "analyze env mint0 =
     (if (case HELIUS_API_KEY env of None \<Rightarrow> True | Some k \<Rightarrow> trim k = []) then
        Inr (JsonError ''Service not configured: HELIUS_API_KEY is missing'' 503)
      else
        (case assetBlock env mint0 of (tokenName0, tokenSymbol0, fromAsset) \<Rightarrow>
         (case mintAuthorityBlock env mint0 fromAsset of
            Inl e \<Rightarrow> Inl e
          | Inr canMint \<Rightarrow>
              (case getTransactionsByAddress env mint0 Asc 1 of
                 Inl e \<Rightarrow> Inl e
               | Inr mintTxsAsc \<Rightarrow>
                   (case Option.bind (first mintTxsAsc) feePayer of
                      None \<Rightarrow>
                        Inr (JsonError (''Could not determine token creator ''
                               @ ''(no transaction history for this address)'') 404)
                    | Some creatorAddress0 \<Rightarrow>
                        if creatorAddress0 = [] then
                          Inr (JsonError (''Could not determine token creator ''
                                 @ ''(no transaction history for this address)'') 404)
                        else
                          (case promiseAll2 (descSettlesFirst env)
                                  (getTransactionsByAddress env creatorAddress0 Asc 1)
                                  (getTransactionsByAddress env creatorAddress0 Desc 100) of
                             Inl e \<Rightarrow> Inl e
                           | Inr (creatorTxsAsc, creatorTxsDesc) \<Rightarrow>
                               Inr (JsonResult
                                      (assemble env mint0 tokenName0 tokenSymbol0 canMint
                                         creatorAddress0
                                         (Option.bind (first mintTxsAsc) timestamp)
                                         creatorTxsAsc creatorTxsDesc))))))))"

text \<open>The outer \<open>catch\<close>: the message picks the status.\<close>

definition errorResponse :: "js_exn \<Rightarrow> Response" where
  "errorResponse err =
     (let message = (case err of Error m \<Rightarrow> m | NonError \<Rightarrow> ''Analysis error'');
          isInvalidKey = (str_includes message ''Invalid API key''
                          \<or> str_includes message ''invalid api key''
                          \<or> str_includes message ''invalid api key provided'');
          status = (if isInvalidKey then 401
                    else if str_includes message ''HELIUS_API_KEY''
                            \<or> str_includes message ''not set''
                            \<or> str_includes message ''rate''
                    then 503 else 500)
      in JsonError message status)"

text \<open>
  The handler. Its argument is the \<open>mint\<close> query parameter, absent or a string. The dash
  in the second message is the three bytes of an en dash.
\<close>

definition GET :: "Env \<Rightarrow> string option \<Rightarrow> Response" where
  "GET env mintParam =
     (let mint0 = (case mintParam of None \<Rightarrow> [] | Some m \<Rightarrow> trim m) in
      if mint0 = [] then JsonError ''Missing mint parameter (token mint address)'' 400
      else if \<not> isValidSolanaAddress mint0 then
        JsonError (''Invalid Solana address (expected 32'' @ [CHR 0xE2, CHR 0x80, CHR 0x93]
                   @ ''44 base58 characters)'') 400
      else (case analyze env mint0 of
              Inl err \<Rightarrow> errorResponse err
            | Inr response \<Rightarrow> response))"

text \<open>What a response carries, for stating results about it.\<close>

fun statusOf :: "Response \<Rightarrow> nat" where
  "statusOf (JsonError message status) = status"
| "statusOf (JsonResult r) = 200"

fun resultOf :: "Response \<Rightarrow> RiskResult option" where
  "resultOf (JsonError message status) = None"
| "resultOf (JsonResult r) = Some r"

section \<open>Sample inputs\<close>

text \<open>Small concrete inputs, used to run the definitions.\<close>

definition sampleTx :: "string \<Rightarrow> HeliusTransaction" where
  "sampleTx tag =
     \<lparr>signature = ''sig'', timestamp = Some (Fin 1700000000), feePayer = Some ''payer'',
      type = Some tag, source = None, description = None,
      nativeTransfers = None, tokenTransfers = None\<rparr>"

definition sampleCreator :: "bool option \<Rightarrow> number \<Rightarrow> CreatorAnalysis" where
  "sampleCreator canMint txCount =
     \<lparr>creatorAddress = ''creator'', creatorFirstTxTimestamp = None,
      accountAgeDays = None, totalTxCount = txCount, estimatedTokensCreated = Fin 0,
      tokenName = None, tokenSymbol = None, canMintUnlimited = canMint\<rparr>"

definition sampleHolders :: "number \<Rightarrow> number \<Rightarrow> number option \<Rightarrow> HolderStats" where
  "sampleHolders n top10 creatorShare =
     \<lparr>totalSupplyRaw = 1000, totalHolders = n, top10Percent = top10,
      topHolders = [], creatorHoldPercent = creatorShare, creatorConnectedHolders = None\<rparr>"

definition sampleMarket :: "number \<Rightarrow> TokenMarketStats" where
  "sampleMarket usd =
     \<lparr>liquidityUsd = Some usd, pairs = None, txCount24h = None, buys24h = None,
      sells24h = None, uniqueTraders24h = None, freshHolders1dPercent = None,
      freshHolders7dPercent = None, migrationStatus = None, migrationLabel = None\<rparr>"

text \<open>
  For stating results about the holder distribution: the balance a token account parses
  to, and the real a finite number stands for.
\<close>

definition parsedAmount :: "TokenAccountHolder \<Rightarrow> int" where
  "parsedAmount a = (case BigInt (amount a) of None \<Rightarrow> 0 | Some v \<Rightarrow> v)"

fun valueOf :: "number \<Rightarrow> real" where
  "valueOf (Fin a) = a"
| "valueOf x = 0"

text \<open>
  Five token accounts of three owners and one account without an owner; each owner ends
  up with a third of the supply.
\<close>

definition sampleAccounts :: "TokenAccountHolder list" where
  "sampleAccounts =
     [\<lparr>owner = ''alice'', amount = ''1''\<rparr>, \<lparr>owner = ''bob'', amount = ''2''\<rparr>,
      \<lparr>owner = ''alice'', amount = ''1''\<rparr>, \<lparr>owner = [], amount = ''7''\<rparr>,
      \<lparr>owner = ''carol'', amount = '' 0x2 ''\<rparr>]"

text \<open>
  Sixteen token accounts: thirteen owners, two of them with two accounts, one account
  without an owner and one empty balance. Merged and ranked there are twelve holders, two
  of them level at 40.
\<close>

definition rankedAccounts :: "TokenAccountHolder list" where
  "rankedAccounts =
     [\<lparr>owner = ''alice'', amount = ''300''\<rparr>, \<lparr>owner = ''bob'', amount = ''50''\<rparr>,
      \<lparr>owner = ''carol'', amount = ''700''\<rparr>, \<lparr>owner = ''alice'', amount = ''500''\<rparr>,
      \<lparr>owner = ''dave'', amount = ''20''\<rparr>, \<lparr>owner = ''erin'', amount = ''90''\<rparr>,
      \<lparr>owner = ''frank'', amount = ''10''\<rparr>, \<lparr>owner = ''gina'', amount = ''60''\<rparr>,
      \<lparr>owner = ''hugo'', amount = ''40''\<rparr>, \<lparr>owner = ''ivan'', amount = ''40''\<rparr>,
      \<lparr>owner = ''judy'', amount = ''80''\<rparr>, \<lparr>owner = ''kate'', amount = ''70''\<rparr>,
      \<lparr>owner = ''liam'', amount = ''5''\<rparr>, \<lparr>owner = [], amount = ''7''\<rparr>,
      \<lparr>owner = ''bob'', amount = '' 0x32 ''\<rparr>, \<lparr>owner = ''mona'', amount = ''0''\<rparr>]"

definition rankedByOwner :: "(string \<times> int) list" where
  "rankedByOwner =
     [(''alice'', 800), (''bob'', 100), (''carol'', 700), (''dave'', 20), (''erin'', 90),
      (''frank'', 10), (''gina'', 60), (''hugo'', 40), (''ivan'', 40), (''judy'', 80),
      (''kate'', 70), (''liam'', 5), (''mona'', 0)]"

text \<open>
  A transaction in which the wallet \<open>payer\<close> sends a native transfer to one recipient.
\<close>

definition transferTx :: "real \<Rightarrow> string \<Rightarrow> HeliusTransaction" where
  "transferTx ts recipient =
     \<lparr>signature = ''sig'', timestamp = Some (Fin ts), feePayer = Some ''payer'',
      type = Some ''TRANSFER'', source = None, description = None,
      nativeTransfers =
        Some [\<lparr>nt_fromUserAccount = Some ''payer'', nt_toUserAccount = Some recipient,
               nt_amount = Some (Fin 1)\<rparr>],
      tokenTransfers = None\<rparr>"

text \<open>
  A request that goes through: the mint's first transaction is paid by \<open>payer\<close>, the
  asset is unknown to the metadata service, byte 10 of the mint account is 1, the
  creator's recent sample (newest first) holds two transfers to \<open>alice\<close>, and there is no
  market data.
\<close>

definition sampleMint :: string where
  "sampleMint = ''So11111111111111111111111111111111111111112''"

definition noDexData :: DexData where
  "noDexData =
     \<lparr>dex_liquidityUsd = None, dex_txCount24h = None, dex_buys24h = None,
      dex_sells24h = None, dex_pairs = None, dex_migrationStatus = None,
      dex_migrationLabel = None\<rparr>"

definition sampleEnv :: Env where
  "sampleEnv =
     \<lparr>HELIUS_API_KEY = Some ''test-key'',
      httpTransactions =
        (\<lambda>address sortOrder limit.
           if address = sampleMint then Inr [sampleTx ''CREATE'']
           else if sortOrder = Asc then Inr [sampleTx ''TRANSFER'']
           else Inr [transferTx 200 ''alice'', transferTx 100 ''alice'']),
      httpAsset = (\<lambda>m. Inr None),
      httpAccountInfo =
        (\<lambda>m. Inr \<lparr>reply_error = False,
                    reply_data = Some [0, 0, 0, 0, 0, 0, 0, 0, 0, 0, 1, 0]\<rparr>),
      httpTokenAccounts = (\<lambda>m limit. Inr (sampleAccounts, Fin 5)),
      fetchDexScreenerData = (\<lambda>m. noDexData),
      birdeyeUniqueWallet24h = None,
      dateNow = 1700086400000,
      descSettlesFirst = False\<rparr>"

text \<open>The same request when the fetch of the creator's recent sample is rejected.\<close>

definition historyFailsEnv :: Env where
  "historyFailsEnv =
     sampleEnv\<lparr>httpTransactions :=
        (\<lambda>address sortOrder limit.
           if address = sampleMint then Inr [sampleTx ''CREATE'']
           else if sortOrder = Asc then Inr [sampleTx ''TRANSFER'']
           else Inl (Error ''Helius API error 500: upstream''))\<rparr>"

text \<open>The same request when \<open>getAsset\<close> throws.\<close>

definition assetFailsEnv :: Env where
  "assetFailsEnv = sampleEnv\<lparr>httpAsset := (\<lambda>m. Inl (Error ''Helius getAsset error: Unknown''))\<rparr>"

text \<open>The same request when the account lookup answers with an error object.\<close>

definition noAuthorityDataEnv :: Env where
  "noAuthorityDataEnv =
     sampleEnv\<lparr>httpAccountInfo := (\<lambda>m. Inr \<lparr>reply_error = True, reply_data = None\<rparr>)\<rparr>"

text \<open>The same request for a mint that has no transactions.\<close>

definition noHistoryEnv :: Env where
  "noHistoryEnv = sampleEnv\<lparr>httpTransactions := (\<lambda>address sortOrder limit. Inr [])\<rparr>"

text \<open>The same request when the fetch of the raw mint account is rejected.\<close>

definition accountLookupFailsEnv :: Env where
  "accountLookupFailsEnv = sampleEnv\<lparr>httpAccountInfo := (\<lambda>m. Inl (Error ''fetch failed''))\<rparr>"

section \<open>Properties of the scorer\<close>

subsection \<open>Running the samples\<close>

lemma sampleTx_create: "txLooksLikeTokenCreation (sampleTx ''create'') = True"
  by (simp add: txLooksLikeTokenCreation_def sampleTx_def toUpperCase_def toUpperChar_def
      TOKEN_CREATION_TYPES_def matchesPrefix_def)

lemma sampleTx_transfer: "txLooksLikeTokenCreation (sampleTx ''TRANSFER'') = False"
  by (simp add: txLooksLikeTokenCreation_def sampleTx_def toUpperCase_def toUpperChar_def
      TOKEN_CREATION_TYPES_def matchesPrefix_def startsWith_def)

lemmas rule_defs = applyRules_def emissionRule_def creatorSoldRule_def serialCreatorRule_def
  accountAgeRule_def activityRule_def holderCountRule_def concentrationRule_def
  connectedRule_def liquidityRule_def freshHoldersRule_def
  num_gt_def num_ge_def num_le_def

lemma sample_score_30:
  "score (computeRiskScore ''m'' (sampleCreator (Some True) (Fin 2))
            [sampleTx ''create'', sampleTx ''create''] None None) = 30"
  by (simp add: computeRiskScore_def sampleTx_create sampleCreator_def rule_defs)

lemma sample_score_31:
  "score (computeRiskScore ''m'' (sampleCreator (Some False) (Fin 10))
            (replicate 10 (sampleTx ''create''))
            (Some (sampleHolders (Fin 10) (Fin 40) None)) None) = 31"
  by (simp add: computeRiskScore_def sampleTx_create sampleCreator_def sampleHolders_def rule_defs)

lemma sample_score_60:
  "score (computeRiskScore ''m'' (sampleCreator None (Fin 1))
            [sampleTx ''TRANSFER''] None None) = 60"
  by (simp add: computeRiskScore_def sampleTx_transfer sampleCreator_def rule_defs)

lemma sample_score_61:
  "score (computeRiskScore ''m'' (sampleCreator (Some False) (Fin 501))
            [sampleTx ''TRANSFER'']
            (Some (sampleHolders (Fin 10) (Fin 40) None)) None) = 61"
  by (simp add: computeRiskScore_def sampleTx_transfer sampleCreator_def sampleHolders_def rule_defs)

subsection \<open>Every block keeps the balance\<close>

lemma emissionRule_balance: "balance (emissionRule ca st) = balance st"
  by (cases st) (simp add: emissionRule_def balance_def)

lemma creatorSoldRule_balance: "balance (creatorSoldRule hs st) = balance st"
  by (cases st) (simp add: creatorSoldRule_def balance_def split: option.splits)

lemma serialCreatorRule_balance: "balance (serialCreatorRule n st) = balance st"
  by (cases st) (simp add: serialCreatorRule_def balance_def)

lemma accountAgeRule_balance: "balance (accountAgeRule ca st) = balance st"
  by (cases st) (simp add: accountAgeRule_def balance_def split: option.splits)

lemma activityRule_balance: "balance (activityRule ca st) = balance st"
  by (cases st) (simp add: activityRule_def balance_def Let_def)

lemma holderCountRule_balance: "balance (holderCountRule hs st) = balance st"
  by (cases st) (simp add: holderCountRule_def balance_def Let_def split: option.splits)

lemma concentrationRule_balance: "balance (concentrationRule hs st) = balance st"
  by (cases st) (simp add: concentrationRule_def balance_def split: option.splits)

lemma connectedRule_balance: "balance (connectedRule hs st) = balance st"
  by (cases st) (simp add: connectedRule_def balance_def Let_def)

lemma liquidityRule_balance: "balance (liquidityRule tm st) = balance st"
  by (cases st) (simp add: liquidityRule_def balance_def split: option.splits)

lemma freshHoldersRule_balance: "balance (freshHoldersRule tm st) = balance st"
  by (cases st) (simp add: freshHoldersRule_def balance_def Let_def)

lemma applyRules_balance: "balance (applyRules ca n hs tm) = 50"
  unfolding applyRules_def
  by (simp add: emissionRule_balance creatorSoldRule_balance serialCreatorRule_balance
      accountAgeRule_balance activityRule_balance holderCountRule_balance
      concentrationRule_balance connectedRule_balance liquidityRule_balance
      freshHoldersRule_balance) (simp add: balance_def)

subsection \<open>The result in terms of the blocks\<close>

lemma score_computeRiskScore:
  "score (computeRiskScore m ca txs hs tm) =
     max 0 (min 100 (fst (applyRules (stamped ca txs) (counted txs) hs tm)))"
  by (simp add: computeRiskScore_def Let_def case_prod_beta)

lemma factors_computeRiskScore:
  "factors (computeRiskScore m ca txs hs tm) =
     snd (applyRules (stamped ca txs) (counted txs) hs tm)"
  by (simp add: computeRiskScore_def Let_def case_prod_beta)

lemma severity_computeRiskScore:
  "severity (computeRiskScore m ca txs hs tm) =
     (let s = score (computeRiskScore m ca txs hs tm)
      in if s \<le> 30 then High else if s \<le> 60 then Medium else Low)"
  by (simp add: computeRiskScore_def Let_def case_prod_beta)

lemma creator_computeRiskScore:
  "estimatedTokensCreated (creator (computeRiskScore m ca txs hs tm)) =
     Fin (real (max (counted txs) 1))"
  by (simp add: computeRiskScore_def Let_def case_prod_beta)

subsection \<open>Score range and severity tier\<close>

text \<open>
  Claim C1. Whatever the creator analysis, the transaction sample, the holder statistics
  and the market statistics are (present or absent, with any numbers in them, not-a-number
  and the infinities included), the score \<open>computeRiskScore\<close> returns lies between 0 and
  100, and the severity is \<open>high\<close> for a score up to 30, \<open>medium\<close> from 31 to 60 and
  \<open>low\<close> from 61 on.
\<close>

theorem computeRiskScore_range_and_tier:
  "0 \<le> score (computeRiskScore m ca txs hs tm)
   \<and> score (computeRiskScore m ca txs hs tm) \<le> 100
   \<and> severity (computeRiskScore m ca txs hs tm) =
       (if score (computeRiskScore m ca txs hs tm) \<le> 30 then High
        else if score (computeRiskScore m ca txs hs tm) \<le> 60 then Medium
        else Low)"
  by (simp add: severity_computeRiskScore Let_def) (simp add: score_computeRiskScore)

text \<open>
  The four boundary scores are reached, and the tiers there are as claimed: 30 is high,
  31 and 60 are medium, 61 is low.
\<close>

theorem computeRiskScore_tier_boundaries:
  "severity (computeRiskScore ''m'' (sampleCreator (Some True) (Fin 2))
               [sampleTx ''create'', sampleTx ''create''] None None) = High
   \<and> severity (computeRiskScore ''m'' (sampleCreator (Some False) (Fin 10))
               (replicate 10 (sampleTx ''create''))
               (Some (sampleHolders (Fin 10) (Fin 40) None)) None) = Medium
   \<and> severity (computeRiskScore ''m'' (sampleCreator None (Fin 1))
               [sampleTx ''TRANSFER''] None None) = Medium
   \<and> severity (computeRiskScore ''m'' (sampleCreator (Some False) (Fin 501))
               [sampleTx ''TRANSFER'']
               (Some (sampleHolders (Fin 10) (Fin 40) None)) None) = Low"
  using
    computeRiskScore_range_and_tier [of "''m''" "sampleCreator (Some True) (Fin 2)"
      "[sampleTx ''create'', sampleTx ''create'']" None None]
    computeRiskScore_range_and_tier [of "''m''" "sampleCreator (Some False) (Fin 10)"
      "replicate 10 (sampleTx ''create'')" "Some (sampleHolders (Fin 10) (Fin 40) None)" None]
    computeRiskScore_range_and_tier [of "''m''" "sampleCreator None (Fin 1)"
      "[sampleTx ''TRANSFER'']" None None]
    computeRiskScore_range_and_tier [of "''m''" "sampleCreator (Some False) (Fin 501)"
      "[sampleTx ''TRANSFER'']" "Some (sampleHolders (Fin 10) (Fin 40) None)" None]
  by (simp only: sample_score_30 sample_score_31 sample_score_60 sample_score_61) simp

subsection \<open>The score is the clamped sum of the impacts\<close>

text \<open>
  Claim C10. For every input, the returned score is 50 plus the sum of the \<open>impact\<close>
  fields of the factors in the returned list, clamped to the range from 0 to 100: a
  block that emits a factor moves the score by exactly that factor's impact, and a block
  that emits none leaves the score alone.
\<close>

theorem computeRiskScore_score_is_clamped_impact_sum:
  "score (computeRiskScore m ca txs hs tm) =
     max 0 (min 100 (50 + sum_list (map impact (factors (computeRiskScore m ca txs hs tm)))))"
proof -
  let ?st = "applyRules (stamped ca txs) (counted txs) hs tm"
  have "balance ?st = 50"
    by (rule applyRules_balance)
  then have "fst ?st = 50 + sum_list (map impact (snd ?st))"
    by (simp add: balance_def)
  then show ?thesis
    by (simp only: score_computeRiskScore factors_computeRiskScore)
qed

subsection \<open>Scenario A\<close>

text \<open>No block removes a factor, and five bounds on what a block can add to the score.\<close>

lemma emissionRule_keeps: "set (snd st) \<subseteq> set (snd (emissionRule ca st))"
  by (cases st) (auto simp: emissionRule_def)

lemma creatorSoldRule_keeps: "set (snd st) \<subseteq> set (snd (creatorSoldRule hs st))"
  by (cases st) (auto simp: creatorSoldRule_def split: option.splits)

lemma serialCreatorRule_keeps: "set (snd st) \<subseteq> set (snd (serialCreatorRule n st))"
  by (cases st) (auto simp: serialCreatorRule_def)

lemma accountAgeRule_keeps: "set (snd st) \<subseteq> set (snd (accountAgeRule ca st))"
  by (cases st) (auto simp: accountAgeRule_def split: option.splits)

lemma activityRule_keeps: "set (snd st) \<subseteq> set (snd (activityRule ca st))"
  by (cases st) (auto simp: activityRule_def Let_def)

lemma holderCountRule_keeps: "set (snd st) \<subseteq> set (snd (holderCountRule hs st))"
  by (cases st) (auto simp: holderCountRule_def Let_def split: option.splits)

lemma concentrationRule_keeps: "set (snd st) \<subseteq> set (snd (concentrationRule hs st))"
  by (cases st) (auto simp: concentrationRule_def split: option.splits)

lemma connectedRule_keeps: "set (snd st) \<subseteq> set (snd (connectedRule hs st))"
  by (cases st) (auto simp: connectedRule_def Let_def)

lemma liquidityRule_keeps: "set (snd st) \<subseteq> set (snd (liquidityRule tm st))"
  by (cases st) (auto simp: liquidityRule_def split: option.splits)

lemma freshHoldersRule_keeps: "set (snd st) \<subseteq> set (snd (freshHoldersRule tm st))"
  by (cases st) (auto simp: freshHoldersRule_def Let_def)

lemma serialCreatorRule_upper: "fst (serialCreatorRule n st) \<le> fst st + 10"
  by (cases st) (simp add: serialCreatorRule_def)

lemma accountAgeRule_upper: "fst (accountAgeRule ca st) \<le> fst st + 10"
  by (cases st) (simp add: accountAgeRule_def split: option.splits)

lemma activityRule_upper: "fst (activityRule ca st) \<le> fst st"
  by (cases st) (simp add: activityRule_def Let_def)

lemma connectedRule_upper: "fst (connectedRule hs st) \<le> fst st"
  by (cases st) (simp add: connectedRule_def Let_def)

lemma freshHoldersRule_upper: "fst (freshHoldersRule tm st) \<le> fst st"
  by (cases st) (simp add: freshHoldersRule_def Let_def)

lemma emissionRule_fires:
  "canMintUnlimited ca = Some True \<Longrightarrow>
     fst (emissionRule ca st) = fst st - 20 \<and> ''unlimited_mint'' \<in> id' ` set (snd (emissionRule ca st))"
  by (cases st) (simp add: emissionRule_def)

lemma creatorSoldRule_fires:
  "creatorHoldPercent h = Some (Fin 0) \<Longrightarrow>
     fst (creatorSoldRule (Some h) st) = fst st - 18
     \<and> ''creator_sold'' \<in> id' ` set (snd (creatorSoldRule (Some h) st))"
  by (cases st) (simp add: creatorSoldRule_def)

lemma holderCountRule_fires:
  "totalHolders h = Fin 2 \<Longrightarrow>
     fst (holderCountRule (Some h) st) = fst st - 18
     \<and> ''very_few_holders'' \<in> id' ` set (snd (holderCountRule (Some h) st))"
  by (cases st) (simp add: holderCountRule_def num_gt_def num_le_def)

lemma concentrationRule_fires:
  "top10Percent h = Fin 100 \<Longrightarrow>
     fst (concentrationRule (Some h) st) = fst st - 15
     \<and> ''extreme_concentration'' \<in> id' ` set (snd (concentrationRule (Some h) st))"
  by (cases st) (simp add: concentrationRule_def num_ge_def num_le_def)

lemma liquidityRule_fires:
  "liquidityUsd t = Some (Fin 500) \<Longrightarrow>
     fst (liquidityRule (Some t) st) = fst st - 12
     \<and> ''low_liquidity'' \<in> id' ` set (snd (liquidityRule (Some t) st))"
  by (cases st) (simp add: liquidityRule_def num_ge_def num_le_def)

text \<open>
  Claim C8. When the mint authority is active, the creator holds 0 percent, there are 2
  holders, the top ten hold 100 percent and the liquidity is 500 dollars, the score is at
  most 10 (it is 0), the severity is \<open>high\<close>, and the factor list has the ids
  \<open>unlimited_mint\<close>, \<open>creator_sold\<close>, \<open>very_few_holders\<close>, \<open>extreme_concentration\<close> and
  \<open>low_liquidity\<close>. Nothing is assumed of the transaction sample, the account age, the
  sample count, the connected holders or the fresh-holder percentages.
\<close>

theorem scenario_A_high_risk:
  assumes mintActive: "canMintUnlimited ca = Some True"
    and hold: "creatorHoldPercent h = Some (Fin 0)"
    and holders: "totalHolders h = Fin 2"
    and top10: "top10Percent h = Fin 100"
    and liq: "liquidityUsd t = Some (Fin 500)"
  shows "score (computeRiskScore m ca txs (Some h) (Some t)) \<le> 10
         \<and> severity (computeRiskScore m ca txs (Some h) (Some t)) = High
         \<and> {''unlimited_mint'', ''creator_sold'', ''very_few_holders'',
             ''extreme_concentration'', ''low_liquidity''}
            \<subseteq> id' ` set (factors (computeRiskScore m ca txs (Some h) (Some t)))"
proof -
  define s1 where "s1 = emissionRule (stamped ca txs) (50, [])"
  define s2 where "s2 = creatorSoldRule (Some h) s1"
  define s3 where "s3 = serialCreatorRule (counted txs) s2"
  define s4 where "s4 = accountAgeRule (stamped ca txs) s3"
  define s5 where "s5 = activityRule (stamped ca txs) s4"
  define s6 where "s6 = holderCountRule (Some h) s5"
  define s7 where "s7 = concentrationRule (Some h) s6"
  define s8 where "s8 = connectedRule (Some h) s7"
  define s9 where "s9 = liquidityRule (Some t) s8"
  define s10 where "s10 = freshHoldersRule (Some t) s9"
  have all: "applyRules (stamped ca txs) (counted txs) (Some h) (Some t) = s10"
    by (simp add: applyRules_def s1_def s2_def s3_def s4_def s5_def s6_def s7_def s8_def
        s9_def s10_def)
  have "canMintUnlimited (stamped ca txs) = Some True"
    using mintActive by simp
  then have f1: "fst s1 = 30" and i1: "''unlimited_mint'' \<in> id' ` set (snd s1)"
    using emissionRule_fires [of "stamped ca txs" "(50, [])"] by (simp_all add: s1_def)
  have f2: "fst s2 = fst s1 - 18" and i2: "''creator_sold'' \<in> id' ` set (snd s2)"
    using creatorSoldRule_fires [OF hold, of s1] by (simp_all add: s2_def)
  have f3: "fst s3 \<le> fst s2 + 10"
    unfolding s3_def by (rule serialCreatorRule_upper)
  have f4: "fst s4 \<le> fst s3 + 10"
    unfolding s4_def by (rule accountAgeRule_upper)
  have f5: "fst s5 \<le> fst s4"
    unfolding s5_def by (rule activityRule_upper)
  have f6: "fst s6 = fst s5 - 18" and i6: "''very_few_holders'' \<in> id' ` set (snd s6)"
    using holderCountRule_fires [OF holders, of s5] by (simp_all add: s6_def)
  have f7: "fst s7 = fst s6 - 15" and i7: "''extreme_concentration'' \<in> id' ` set (snd s7)"
    using concentrationRule_fires [OF top10, of s6] by (simp_all add: s7_def)
  have f8: "fst s8 \<le> fst s7"
    unfolding s8_def by (rule connectedRule_upper)
  have f9: "fst s9 = fst s8 - 12" and i9: "''low_liquidity'' \<in> id' ` set (snd s9)"
    using liquidityRule_fires [OF liq, of s8] by (simp_all add: s9_def)
  have f10: "fst s10 \<le> fst s9"
    unfolding s10_def by (rule freshHoldersRule_upper)
  have k12: "set (snd s1) \<subseteq> set (snd s2)" unfolding s2_def by (rule creatorSoldRule_keeps)
  have k23: "set (snd s2) \<subseteq> set (snd s3)" unfolding s3_def by (rule serialCreatorRule_keeps)
  have k34: "set (snd s3) \<subseteq> set (snd s4)" unfolding s4_def by (rule accountAgeRule_keeps)
  have k45: "set (snd s4) \<subseteq> set (snd s5)" unfolding s5_def by (rule activityRule_keeps)
  have k56: "set (snd s5) \<subseteq> set (snd s6)" unfolding s6_def by (rule holderCountRule_keeps)
  have k67: "set (snd s6) \<subseteq> set (snd s7)" unfolding s7_def by (rule concentrationRule_keeps)
  have k78: "set (snd s7) \<subseteq> set (snd s8)" unfolding s8_def by (rule connectedRule_keeps)
  have k89: "set (snd s8) \<subseteq> set (snd s9)" unfolding s9_def by (rule liquidityRule_keeps)
  have k910: "set (snd s9) \<subseteq> set (snd s10)" unfolding s10_def by (rule freshHoldersRule_keeps)
  have low: "fst s10 \<le> - 13"
    using f1 f2 f3 f4 f5 f6 f7 f8 f9 f10 by linarith
  have "score (computeRiskScore m ca txs (Some h) (Some t)) = max 0 (min 100 (fst s10))"
    by (simp only: score_computeRiskScore all)
  then have sc: "score (computeRiskScore m ca txs (Some h) (Some t)) = 0"
    using low by simp
  have sv: "severity (computeRiskScore m ca txs (Some h) (Some t)) = High"
    by (simp add: severity_computeRiskScore sc)
  have k9: "set (snd s9) \<subseteq> set (snd s10)" by (rule k910)
  have k7: "set (snd s7) \<subseteq> set (snd s10)" using k78 k89 k910 by blast
  have k6: "set (snd s6) \<subseteq> set (snd s10)" using k67 k7 by blast
  have k2: "set (snd s2) \<subseteq> set (snd s10)" using k23 k34 k45 k56 k6 by blast
  have k1: "set (snd s1) \<subseteq> set (snd s10)" using k12 k2 by blast
  have ids: "{''unlimited_mint'', ''creator_sold'', ''very_few_holders'',
             ''extreme_concentration'', ''low_liquidity''} \<subseteq> id' ` set (snd s10)"
    using i1 i2 i6 i7 i9 k1 k2 k6 k7 k9 by blast
  have fs: "factors (computeRiskScore m ca txs (Some h) (Some t)) = snd s10"
    by (simp only: factors_computeRiskScore all)
  show ?thesis
    using sc sv ids by (simp only: fs) simp
qed

theorem scenario_A_high_risk_witness:
  "canMintUnlimited (sampleCreator (Some True) (Fin 2)) = Some True
   \<and> creatorHoldPercent (sampleHolders (Fin 2) (Fin 100) (Some (Fin 0))) = Some (Fin 0)
   \<and> totalHolders (sampleHolders (Fin 2) (Fin 100) (Some (Fin 0))) = Fin 2
   \<and> top10Percent (sampleHolders (Fin 2) (Fin 100) (Some (Fin 0))) = Fin 100
   \<and> liquidityUsd (sampleMarket (Fin 500)) = Some (Fin 500)
   \<and> score (computeRiskScore ''m'' (sampleCreator (Some True) (Fin 2)) [sampleTx ''TRANSFER'']
         (Some (sampleHolders (Fin 2) (Fin 100) (Some (Fin 0)))) (Some (sampleMarket (Fin 500)))) \<le> 10
   \<and> severity (computeRiskScore ''m'' (sampleCreator (Some True) (Fin 2)) [sampleTx ''TRANSFER'']
         (Some (sampleHolders (Fin 2) (Fin 100) (Some (Fin 0)))) (Some (sampleMarket (Fin 500)))) = High
   \<and> {''unlimited_mint'', ''creator_sold'', ''very_few_holders'',
             ''extreme_concentration'', ''low_liquidity''}
      \<subseteq> id' ` set (factors (computeRiskScore ''m'' (sampleCreator (Some True) (Fin 2)) [sampleTx ''TRANSFER'']
         (Some (sampleHolders (Fin 2) (Fin 100) (Some (Fin 0)))) (Some (sampleMarket (Fin 500)))))"
proof -
  have a: "canMintUnlimited (sampleCreator (Some True) (Fin 2)) = Some True"
    by (simp add: sampleCreator_def)
  have b: "creatorHoldPercent (sampleHolders (Fin 2) (Fin 100) (Some (Fin 0))) = Some (Fin 0)"
    and c: "totalHolders (sampleHolders (Fin 2) (Fin 100) (Some (Fin 0))) = Fin 2"
    and d: "top10Percent (sampleHolders (Fin 2) (Fin 100) (Some (Fin 0))) = Fin 100"
    by (simp_all add: sampleHolders_def)
  have e: "liquidityUsd (sampleMarket (Fin 500)) = Some (Fin 500)"
    by (simp add: sampleMarket_def)
  show ?thesis
    using scenario_A_high_risk [OF a b c d e, of "''m''" "[sampleTx ''TRANSFER'']"] a b c d e
    by simp
qed

section \<open>Properties of the classification\<close>

lemma startsWith_append: "startsWith t (p @ q) \<Longrightarrow> startsWith t p"
  unfolding startsWith_def
  by (metis append_eq_conv_conj append_take_drop_id append_assoc)

lemma master_edition_covered:
  assumes "matchesPrefix t ''CREATE_MASTER_EDITION''"
  shows "matchesPrefix t ''CREATE''"
proof -
  have "startsWith t (''CREATE_'' @ ''MASTER_EDITION'')"
    using assms startsWith_append [of t "''CREATE_MASTER_EDITION''" "''_''"]
    by (auto simp: matchesPrefix_def startsWith_def)
  then have "startsWith t ''CREATE_''"
    by (rule startsWith_append)
  then show ?thesis
    by (simp add: matchesPrefix_def)
qed

lemma taxonomy_agree:
  "list_ex (matchesPrefix t) TOKEN_CREATION_TYPES = list_ex (matchesPrefix t) CREATION_TYPES"
  using master_edition_covered [of t]
  by (auto simp: TOKEN_CREATION_TYPES_def CREATION_TYPES_def)

text \<open>
  Claim C5. The scorer's classifier and the collector's classifier return the same
  boolean on every transaction, whatever its type tag is and also when it has none: the
  one entry the scorer's set has in addition, \<open>CREATE_MASTER_EDITION\<close>, matches nothing
  that the entry \<open>CREATE\<close> does not match as a prefix.
\<close>

theorem txLooksLikeTokenCreation_eq_isCreationTx:
  "txLooksLikeTokenCreation tx = isCreationTx tx"
  by (simp add: txLooksLikeTokenCreation_def isCreationTx_def taxonomy_agree Let_def)

lemma count_permuted:
  "mset xs = mset ys \<Longrightarrow> length (filter P xs) = length (filter P ys)"
  by (metis mset_filter size_mset)

text \<open>
  Claim C6. The count written into \<open>estimatedTokensCreated\<close> does not depend on the
  order of the transaction sample: any permutation of the sample gives the same value.
  Classifying again what was already classified changes nothing either: the sample cut
  down to its creation events gives the same value as the sample itself.
\<close>

theorem estimatedTokensCreated_order_independent:
  assumes "mset txs = mset txs'"
  shows "estimatedTokensCreated (creator (computeRiskScore m ca txs hs tm))
           = estimatedTokensCreated (creator (computeRiskScore m ca txs' hs tm))
         \<and> estimatedTokensCreated
             (creator (computeRiskScore m ca (filter txLooksLikeTokenCreation txs) hs tm))
           = estimatedTokensCreated (creator (computeRiskScore m ca txs hs tm))"
  using count_permuted [OF assms, of txLooksLikeTokenCreation]
  by (simp add: creator_computeRiskScore)

theorem estimatedTokensCreated_order_independent_witness:
  "mset [sampleTx ''create'', sampleTx ''TRANSFER'', sampleTx ''create'']
     = mset [sampleTx ''TRANSFER'', sampleTx ''create'', sampleTx ''create'']
   \<and> estimatedTokensCreated (creator (computeRiskScore ''m'' (sampleCreator None (Fin 3))
        [sampleTx ''create'', sampleTx ''TRANSFER'', sampleTx ''create''] None None))
     = estimatedTokensCreated (creator (computeRiskScore ''m'' (sampleCreator None (Fin 3))
        [sampleTx ''TRANSFER'', sampleTx ''create'', sampleTx ''create''] None None))
   \<and> estimatedTokensCreated (creator (computeRiskScore ''m'' (sampleCreator None (Fin 3))
        (filter txLooksLikeTokenCreation
           [sampleTx ''create'', sampleTx ''TRANSFER'', sampleTx ''create'']) None None))
     = Fin 2"
proof -
  have p: "mset [sampleTx ''create'', sampleTx ''TRANSFER'', sampleTx ''create'']
             = mset [sampleTx ''TRANSFER'', sampleTx ''create'', sampleTx ''create'']"
    by simp
  have v: "estimatedTokensCreated (creator (computeRiskScore ''m'' (sampleCreator None (Fin 3))
             [sampleTx ''create'', sampleTx ''TRANSFER'', sampleTx ''create''] None None)) = Fin 2"
    by (simp add: creator_computeRiskScore sampleTx_create sampleTx_transfer)
  show ?thesis
    using estimatedTokensCreated_order_independent
            [OF p, of "''m''" "sampleCreator None (Fin 3)" None None] p v
    by simp
qed

section \<open>Properties of the collector\<close>

subsection \<open>Rounding to the nearest double\<close>

lemma pow2_powr: "pow2 e = 2 powr real_of_int e"
proof (cases "0 \<le> e")
  case True
  then have "2 powr real_of_int e = 2 powr real (nat e)" by simp
  also have "\<dots> = 2 ^ nat e" by (rule powr_realpow) simp
  finally show ?thesis using True by (simp add: pow2_def)
next
  case False
  then have "2 powr real_of_int e = 2 powr (- real (nat (- e)))" by simp
  also have "\<dots> = 1 / 2 powr real (nat (- e))" by (simp only: powr_minus_divide)
  also have "2 powr real (nat (- e)) = 2 ^ nat (- e)" by (rule powr_realpow) simp
  finally show ?thesis using False by (simp add: pow2_def)
qed

lemma pow2_pos: "0 < pow2 e"
  by (simp add: pow2_powr)

lemma pow2_add: "pow2 (a + b) = pow2 a * pow2 b"
  by (simp add: pow2_powr powr_add)

lemma pow2_mono: "a \<le> b \<Longrightarrow> pow2 a \<le> pow2 b"
  by (simp add: pow2_powr)

lemma pow2_le_iff: "pow2 a \<le> pow2 b \<longleftrightarrow> a \<le> b"
  by (simp add: pow2_powr)

lemma pow2_less_iff: "pow2 a < pow2 b \<longleftrightarrow> a < b"
  by (simp add: pow2_powr)

lemma bitLength_bounds:
  "0 < n \<Longrightarrow> 1 \<le> bitLength n \<and> 2 ^ nat (bitLength n - 1) \<le> n \<and> n < 2 ^ nat (bitLength n)"
proof (induction n rule: bitLength.induct)
  case (1 n)
  show ?case
  proof (cases "n div 2 = 0")
    case True
    with "1.prems" have "n = 1" by presburger
    then have "bitLength n = 1"
      by (simp add: bitLength.simps [of 1] bitLength.simps [of 0])
    with \<open>n = 1\<close> show ?thesis by simp
  next
    case False
    with "1.prems" have pos: "0 < n div 2" by presburger
    from "1.IH" [OF _ pos] "1.prems"
    have ih: "1 \<le> bitLength (n div 2)"
      "2 ^ nat (bitLength (n div 2) - 1) \<le> n div 2"
      "n div 2 < 2 ^ nat (bitLength (n div 2))"
      by auto
    have b: "bitLength n = 1 + bitLength (n div 2)"
      using "1.prems" by (simp add: bitLength.simps [of n])
    define c where "c = bitLength (n div 2)"
    have c: "1 \<le> c" and bc: "bitLength n = 1 + c"
      using ih(1) b by (simp_all add: c_def)
    have n1: "nat c = Suc (nat (c - 1))" and n2: "nat (1 + c) = Suc (nat c)"
      using c by simp_all
    have lo: "2 * (n div 2) \<le> n" and hi: "n < 2 * (n div 2) + 2"
      by presburger+
    have "(2::int) ^ nat c = 2 * 2 ^ nat (c - 1)"
      by (simp only: n1 power_Suc)
    also have "\<dots> \<le> 2 * (n div 2)"
      using ih(2) by (simp add: c_def)
    finally have A: "2 ^ nat c \<le> n"
      using lo by linarith
    have "n div 2 + 1 \<le> 2 ^ nat c"
      using ih(3) by (simp add: c_def)
    then have "2 * (n div 2) + 2 \<le> 2 * 2 ^ nat c"
      by linarith
    also have "2 * (2::int) ^ nat c = 2 ^ nat (1 + c)"
      by (simp only: n2 power_Suc)
    finally have B: "n < 2 ^ nat (1 + c)"
      using hi by linarith
    have "1 \<le> 1 + c" using c by simp
    moreover have "nat (1 + c - 1) = nat c" by simp
    ultimately show ?thesis
      using A B unfolding bc by simp
  qed
qed

lemma binaryExponent_bounds:
  assumes "0 < a"
  shows "pow2 (binaryExponent a) \<le> a \<and> a < pow2 (binaryExponent a + 1)"
proof (cases "1 \<le> a")
  case True
  define n where "n = \<lfloor>a\<rfloor>"
  have n: "0 < n" using True by (simp add: n_def)
  note b = bitLength_bounds [OF n]
  have k: "binaryExponent a = bitLength n - 1"
    using True by (simp add: binaryExponent_def n_def)
  have e1: "pow2 (bitLength n - 1) = 2 ^ nat (bitLength n - 1)"
    using b by (simp add: pow2_def)
  have e2: "pow2 (bitLength n - 1 + 1) = 2 ^ nat (bitLength n)"
    using b by (simp add: pow2_def)
  have cast: "real_of_int (2 ^ i) = 2 ^ i" for i :: nat
    by simp
  have "real_of_int (2 ^ nat (bitLength n - 1)) \<le> real_of_int n"
    using b by (simp only: of_int_le_iff)
  moreover have "real_of_int n \<le> a" by (simp add: n_def)
  ultimately have lo: "2 ^ nat (bitLength n - 1) \<le> a"
    unfolding cast by linarith
  have "n + 1 \<le> 2 ^ nat (bitLength n)" using b by simp
  then have "real_of_int (n + 1) \<le> real_of_int (2 ^ nat (bitLength n))"
    by (simp only: of_int_le_iff)
  moreover have "a < real_of_int (n + 1)" by (simp add: n_def)
  ultimately have hi: "a < 2 ^ nat (bitLength n)"
    unfolding cast by linarith
  show ?thesis using lo hi unfolding k e1 e2 by blast
next
  case False
  define y where "y = 1 / a"
  define n where "n = \<lceil>y\<rceil> - 1"
  have y: "1 < y" using False assms by (simp add: y_def)
  then have "1 < \<lceil>y\<rceil>" by (simp add: less_ceiling_iff)
  then have n: "0 < n" by (simp add: n_def)
  note b = bitLength_bounds [OF n]
  define j where "j = bitLength n"
  have j: "1 \<le> j" using b by (simp add: j_def)
  have k: "binaryExponent a = - j"
    using False by (simp add: binaryExponent_def n_def y_def j_def)
  have ny: "real_of_int n < y" and yn: "y \<le> real_of_int n + 1"
    unfolding n_def by linarith+
  have cast: "real_of_int (2 ^ i) = 2 ^ i" for i :: nat
    by simp
  have "real_of_int (2 ^ nat (j - 1)) \<le> real_of_int n"
    using b by (simp only: of_int_le_iff j_def)
  then have lo: "2 ^ nat (j - 1) < y"
    unfolding cast using ny by linarith
  have "n + 1 \<le> 2 ^ nat j" using b by (simp add: j_def)
  then have "real_of_int (n + 1) \<le> real_of_int (2 ^ nat j)"
    by (simp only: of_int_le_iff)
  moreover have "real_of_int (n + 1) = real_of_int n + 1" by simp
  ultimately have hi: "y \<le> 2 ^ nat j"
    unfolding cast using yn by linarith
  have ay: "a = 1 / y" using assms by (simp add: y_def)
  have p1: "pow2 (- j) = 1 / 2 ^ nat j"
    using j by (simp add: pow2_def)
  have p2: "pow2 (- j + 1) = 1 / 2 ^ nat (j - 1)"
  proof (cases "j = 1")
    case True
    then show ?thesis by (simp add: pow2_def)
  next
    case False
    with j have "- j + 1 < 0" by simp
    moreover have "nat (- (- j + 1)) = nat (j - 1)" by simp
    ultimately show ?thesis by (simp add: pow2_def)
  qed
  have ypos: "0 < y" using y by simp
  have "1 / 2 ^ nat j \<le> 1 / y"
    using hi ypos by (simp add: frac_le)
  then have l: "1 / 2 ^ nat j \<le> a"
    by (simp only: ay)
  have "1 / y < 1 / 2 ^ nat (j - 1)"
    using lo by (simp add: frac_less2)
  then have h: "a < 1 / 2 ^ nat (j - 1)"
    by (simp only: ay)
  from l h show ?thesis
    unfolding k p1 p2 by blast
qed

lemma roundHalfEven_error: "\<bar>real_of_int (roundHalfEven t) - t\<bar> \<le> 1 / 2"
proof -
  have "real_of_int \<lfloor>t\<rfloor> \<le> t" and "t < real_of_int \<lfloor>t\<rfloor> + 1"
    by linarith+
  then show ?thesis
    by (auto simp: roundHalfEven_def Let_def)
qed

lemma roundHalfEven_of_int: "roundHalfEven (real_of_int n) = n"
  by (simp add: roundHalfEven_def)

lemma toDouble_positive:
  assumes "0 < x" and "e = max (binaryExponent x - 52) (- 1074)"
    and "m = roundHalfEven (x / pow2 e)"
    and "\<not> (972 \<le> e \<or> (e = 971 \<and> m = 2 ^ 53))"
  shows "toDouble x = Fin (real_of_int m * pow2 e)"
  using assms by (simp add: toDouble_def Let_def)

text \<open>
  In the range of the percentages the nearest double is finite and within a relative
  error of \<open>2^-53\<close>.
\<close>

lemma toDouble_relative_error:
  assumes "1 / 128 \<le> x" and "x \<le> 128"
  shows "\<exists>r. toDouble x = Fin r \<and> \<bar>r - x\<bar> \<le> x / 2 ^ 53"
proof -
  have pos: "0 < x" using assms(1) by simp
  define k where "k = binaryExponent x"
  note b = binaryExponent_bounds [OF pos, folded k_def]
  have p7: "pow2 7 = 128" and m7: "pow2 (- 7) = 1 / 128"
    by (simp_all add: pow2_def)
  have "pow2 k \<le> pow2 7" using b assms(2) by (simp only: p7) linarith
  then have kle: "k \<le> 7"
    by (simp only: pow2_le_iff)
  have "pow2 (- 7) < pow2 (k + 1)" using b assms(1) by (simp only: m7) linarith
  then have "- 7 < k + 1"
    by (simp only: pow2_less_iff)
  then have kge: "- 7 \<le> k" by simp
  define e where "e = k - 52"
  have e: "max (binaryExponent x - 52) (- 1074) = e"
    using kge by (simp add: e_def k_def)
  define m where "m = roundHalfEven (x / pow2 e)"
  define r where "r = real_of_int m * pow2 e"
  have nover: "\<not> (972 \<le> e \<or> (e = 971 \<and> m = 2 ^ 53))"
    using kle by (simp add: e_def)
  have td: "toDouble x = Fin r"
    unfolding r_def using pos e [symmetric] m_def nover by (rule toDouble_positive)
  have "\<bar>real_of_int m - x / pow2 e\<bar> \<le> 1 / 2"
    unfolding m_def by (rule roundHalfEven_error)
  then have "\<bar>real_of_int m - x / pow2 e\<bar> * pow2 e \<le> 1 / 2 * pow2 e"
    using pow2_pos [of e] by (simp only: mult_le_cancel_right_pos)
  moreover have "\<bar>real_of_int m - x / pow2 e\<bar> * pow2 e = \<bar>r - x\<bar>"
  proof -
    have "\<bar>real_of_int m - x / pow2 e\<bar> * pow2 e = \<bar>(real_of_int m - x / pow2 e) * pow2 e\<bar>"
      using pow2_pos [of e] by (simp add: abs_mult)
    also have "(real_of_int m - x / pow2 e) * pow2 e = r - x"
      using pow2_pos [of e] by (simp add: r_def left_diff_distrib)
    finally show ?thesis .
  qed
  ultimately have d: "\<bar>r - x\<bar> \<le> pow2 e / 2" by simp
  have "pow2 k = pow2 e * pow2 52"
    by (simp add: e_def pow2_add [symmetric])
  also have "pow2 52 = 2 ^ 52" by (simp add: pow2_def)
  finally have "pow2 e = pow2 k / 2 ^ 52" by simp
  then have "pow2 e / 2 = pow2 k / 2 ^ 53" by simp
  also have "\<dots> \<le> x / 2 ^ 53"
    using b by (simp add: divide_right_mono)
  finally have "pow2 e / 2 \<le> x / 2 ^ 53" .
  with d td show ?thesis by auto
qed

text \<open>Small integers are doubles: \<open>Number\<close> of a basis-point count is exact.\<close>

lemma toDouble_small_int:
  assumes "0 \<le> n" and "n \<le> 10000"
  shows "toDouble (real_of_int n) = Fin (real_of_int n)"
proof (cases "n = 0")
  case True
  then show ?thesis by (simp add: toDouble_def)
next
  case False
  with assms have pos: "0 < real_of_int n" and one: "1 \<le> real_of_int n" by simp_all
  define k where "k = binaryExponent (real_of_int n)"
  note b = binaryExponent_bounds [OF pos, folded k_def]
  have p0: "pow2 0 = 1" and p14: "pow2 14 = 16384"
    by (simp_all add: pow2_def)
  have "pow2 0 < pow2 (k + 1)" using b one by (simp only: p0) linarith
  then have "0 < k + 1" by (simp only: pow2_less_iff)
  then have kge: "0 \<le> k" by simp
  have "real_of_int n \<le> 10000" using assms(2) by simp
  then have "pow2 k \<le> pow2 14" using b by (simp only: p14) linarith
  then have kle: "k \<le> 14" by (simp only: pow2_le_iff)
  define e where "e = k - 52"
  have e: "max (binaryExponent (real_of_int n) - 52) (- 1074) = e"
    using kge by (simp add: e_def k_def)
  have eneg: "e < 0" using kle by (simp add: e_def)
  have pe: "pow2 e = 1 / 2 ^ nat (- e)"
    using eneg by (simp add: pow2_def)
  have q: "real_of_int n / pow2 e = real_of_int (n * 2 ^ nat (- e))"
    by (simp add: pe)
  have m: "roundHalfEven (real_of_int n / pow2 e) = n * 2 ^ nat (- e)"
    by (simp only: q roundHalfEven_of_int)
  have r: "real_of_int (n * 2 ^ nat (- e)) * pow2 e = real_of_int n"
    by (simp add: pe)
  have nover: "\<not> (972 \<le> e \<or> (e = 971 \<and> n * 2 ^ nat (- e) = 2 ^ 53))"
    using eneg by simp
  have "toDouble (real_of_int n) = Fin (real_of_int (n * 2 ^ nat (- e)) * pow2 e)"
    using pos e [symmetric] m [symmetric] nover by (rule toDouble_positive)
  then show ?thesis
    by (simp only: r)
qed

subsection \<open>Holder aggregation\<close>

lemma aggregate_spec:
  "aggregateByOwner accounts acc = Some r \<Longrightarrow> distinct (map fst acc) \<Longrightarrow>
     distinct (map fst r)
     \<and> (\<forall>k. map_of r k =
           (if k \<noteq> [] \<and> k \<in> owner ` set accounts
            then Some ((case map_of acc k of None \<Rightarrow> 0 | Some v \<Rightarrow> v)
                       + sum_list (map parsedAmount (filter (\<lambda>a. owner a = k) accounts)))
            else map_of acc k))"
proof (induction accounts arbitrary: acc)
  case Nil
  then show ?case by simp
next
  case (Cons a rest)
  show ?case
  proof (cases "owner a = []")
    case True
    with Cons.prems have "aggregateByOwner rest acc = Some r" by simp
    from Cons.IH [OF this Cons.prems(2)] True show ?thesis by auto
  next
    case False
    with Cons.prems obtain amt where amt: "BigInt (amount a) = Some amt"
      by (auto split: option.splits)
    define cur where "cur = (case map_of acc (owner a) of None \<Rightarrow> 0 | Some v \<Rightarrow> v)"
    define acc' where "acc' = AList.update (owner a) (cur + amt) acc"
    have run: "aggregateByOwner rest acc' = Some r"
      using Cons.prems(1) False amt by (simp add: acc'_def cur_def)
    have d: "distinct (map fst acc')"
      using Cons.prems(2) by (simp add: acc'_def distinct_update)
    have m: "map_of acc' = (map_of acc)(owner a \<mapsto> cur + amt)"
      by (simp add: acc'_def update_conv')
    have pa: "parsedAmount a = amt"
      by (simp add: parsedAmount_def amt)
    from Cons.IH [OF run d] have dr: "distinct (map fst r)"
      and ih: "\<And>k. map_of r k =
           (if k \<noteq> [] \<and> k \<in> owner ` set rest
            then Some ((case map_of acc' k of None \<Rightarrow> 0 | Some v \<Rightarrow> v)
                       + sum_list (map parsedAmount (filter (\<lambda>a. owner a = k) rest)))
            else map_of acc' k)"
      by auto
    have "map_of r k =
           (if k \<noteq> [] \<and> k \<in> owner ` set (a # rest)
            then Some ((case map_of acc k of None \<Rightarrow> 0 | Some v \<Rightarrow> v)
                       + sum_list (map parsedAmount (filter (\<lambda>a. owner a = k) (a # rest))))
            else map_of acc k)" for k
    proof (cases "k = owner a")
      case True
      have none: "k \<notin> owner ` set rest \<Longrightarrow> filter (\<lambda>a. owner a = k) rest = []"
        by (auto simp: filter_empty_conv)
      show ?thesis
        using True False none by (simp add: ih m pa cur_def)
    next
      case False
      then show ?thesis
        using \<open>owner a \<noteq> []\<close> by (auto simp add: ih m)
    qed
    with dr show ?thesis by blast
  qed
qed

lemma bigint_div_nonneg: "0 \<le> a \<Longrightarrow> 0 < b \<Longrightarrow> bigint_div a b = a div b"
  by (cases "a = 0") (simp_all add: bigint_div_def)

lemma basisPoints_bounds:
  assumes "0 \<le> v" "0 < T"
  shows "basisPoints v T * T \<le> v * 10000" and "v * 10000 < (basisPoints v T + 1) * T"
proof -
  have e: "basisPoints v T = (v * 10000) div T"
    using assms by (simp add: basisPoints_def bigint_div_nonneg)
  define q r where "q = (v * 10000) div T" and "r = (v * 10000) mod T"
  have d: "v * 10000 = q * T + r"
    by (simp add: q_def r_def)
  have m0: "0 \<le> r" and m1: "r < T"
    using assms(2) by (simp_all add: r_def)
  have x: "(q + 1) * T = q * T + T"
    by (simp add: algebra_simps)
  show "basisPoints v T * T \<le> v * 10000"
    unfolding e q_def [symmetric] using d m0 by linarith
  show "v * 10000 < (basisPoints v T + 1) * T"
    unfolding e q_def [symmetric] using d m1 x by linarith
qed

lemma basisPoints_sum:
  assumes "0 < T" "\<forall>p \<in> set hs. 0 < snd p"
  shows "sum_list (map (\<lambda>(k, v). basisPoints v T) hs) * T \<le> sum_list (map snd hs) * 10000
       \<and> sum_list (map snd hs) * 10000 + int (length hs)
            \<le> (sum_list (map (\<lambda>(k, v). basisPoints v T) hs) + int (length hs)) * T"
  using assms(2)
proof (induction hs)
  case Nil
  then show ?case by simp
next
  case (Cons p hs)
  obtain k v where p: "p = (k, v)" by (cases p)
  have v: "0 \<le> v" using Cons.prems p by simp
  note b = basisPoints_bounds [OF v assms(1)]
  from Cons have ih:
    "sum_list (map (\<lambda>(k, v). basisPoints v T) hs) * T \<le> sum_list (map snd hs) * 10000"
    "sum_list (map snd hs) * 10000 + int (length hs)
       \<le> (sum_list (map (\<lambda>(k, v). basisPoints v T) hs) + int (length hs)) * T"
    by auto
  show ?case
    using b ih by (simp add: p algebra_simps)
qed

lemma sortedHolders_set:
  "set (sortedHolders byOwner) = {(k, v). (k, v) \<in> set byOwner \<and> 0 < v}"
  by (auto simp: sortedHolders_def)

lemma sortedHolders_distinct:
  assumes "distinct (map fst byOwner)"
  shows "distinct (map fst (sortedHolders byOwner))"
proof -
  have "distinct (map fst (filter (\<lambda>(k, v). v > 0) byOwner))"
    using assms by (rule distinct_map_filter)
  moreover have "mset (map fst (sortedHolders byOwner))
                   = mset (map fst (filter (\<lambda>(k, v). v > 0) byOwner))"
    by (simp add: sortedHolders_def)
  ultimately show ?thesis
    by (metis distinct_count_atmost_1 set_mset_mset)
qed

lemma sortedHolders_descending:
  "sorted (map (\<lambda>(k, v). - v) (sortedHolders byOwner))"
  by (simp add: sortedHolders_def)

lemma sortedHolders_ranked:
  "sorted_wrt (\<lambda>p q. snd q \<le> snd p) (sortedHolders byOwner)"
proof -
  have "sorted (map (\<lambda>(k, v). - v) (sortedHolders byOwner))"
    by (simp add: sortedHolders_def)
  then have "sorted_wrt (\<lambda>p q. (case p of (k, v) \<Rightarrow> - v) \<le> (case q of (k, v) \<Rightarrow> - v))
               (sortedHolders byOwner)"
    by (simp only: sorted_wrt_map)
  then show ?thesis
    by (rule sorted_wrt_mono_rel [rotated]) auto
qed

lemma sortedHolders_stable:
  "filter (\<lambda>p. snd p = v) (sortedHolders byOwner)
     = filter (\<lambda>p. snd p = v \<and> 0 < v) byOwner"
proof -
  have eq: "(\<lambda>p. (case p of (k, w) \<Rightarrow> - w) = - v) = (\<lambda>p :: string \<times> int. snd p = v)"
    by (auto simp: fun_eq_iff)
  have "filter (\<lambda>p. (case p of (k, w) \<Rightarrow> - w) = - v) (sortedHolders byOwner)
          = filter (\<lambda>p. (case p of (k, w) \<Rightarrow> - w) = - v) (filter (\<lambda>(k, w). w > 0) byOwner)"
    unfolding sortedHolders_def by (rule sort_key_stable)
  then have "filter (\<lambda>p. snd p = v) (sortedHolders byOwner)
          = filter (\<lambda>p. snd p = v) (filter (\<lambda>(k, w). w > 0) byOwner)"
    by (simp only: eq)
  also have "\<dots> = filter (\<lambda>p. snd p = v \<and> 0 < v) byOwner"
    by (auto simp: case_prod_beta intro: filter_cong)
  finally show ?thesis .
qed

lemma member_le_total:
  assumes "\<forall>p \<in> set hs. 0 < snd p" and "(k, v :: int) \<in> set hs"
  shows "v \<le> sum_list (map snd hs)"
  using assms
proof (induction hs)
  case Nil
  then show ?case by simp
next
  case (Cons p hs)
  have rest: "0 \<le> sum_list (map snd hs)"
  proof (rule sum_list_nonneg)
    fix x assume "x \<in> set (map snd hs)"
    then obtain q where "q \<in> set hs" and "x = snd q" by auto
    with Cons.prems(1) show "0 \<le> x" by (simp add: less_imp_le)
  qed
  show ?case
  proof (cases "(k, v) = p")
    case True
    then show ?thesis using rest by auto
  next
    case False
    with Cons have "v \<le> sum_list (map snd hs)" by auto
    moreover have "0 < snd p" using Cons.prems(1) by simp
    ultimately show ?thesis by simp
  qed
qed

lemma basisPoints_range:
  assumes "0 \<le> v" and "v \<le> T" and "0 < T"
  shows "0 \<le> basisPoints v T \<and> basisPoints v T \<le> 10000"
proof -
  have e: "basisPoints v T = (v * 10000) div T"
    using assms by (simp add: basisPoints_def bigint_div_nonneg)
  have "0 \<le> (v * 10000) div T"
    using assms by (simp add: pos_imp_zdiv_nonneg_iff)
  moreover have "(v * 10000) div T \<le> (T * 10000) div T"
    using assms by (intro zdiv_mono1) simp_all
  moreover have "(T * 10000) div T = 10000"
    using assms(3) by simp
  ultimately show ?thesis
    by (simp add: e)
qed

text \<open>A share of at most 100 percent, as the double the code returns.\<close>

lemma percent_of_basisPoints:
  assumes "0 \<le> b" and "b \<le> 10000"
  shows "num_div_rounded (numberOfBigInt b) 100 = toDouble (real_of_int b / 100)
       \<and> \<bar>valueOf (toDouble (real_of_int b / 100)) - real_of_int b / 100\<bar>
           \<le> real_of_int b / 100 / 2 ^ 53"
proof -
  have n: "numberOfBigInt b = Fin (real_of_int b)"
    unfolding numberOfBigInt_def using assms by (rule toDouble_small_int)
  have first: "num_div_rounded (numberOfBigInt b) 100 = toDouble (real_of_int b / 100)"
    by (simp add: n)
  have second: "\<bar>valueOf (toDouble (real_of_int b / 100)) - real_of_int b / 100\<bar>
           \<le> real_of_int b / 100 / 2 ^ 53"
  proof (cases "b = 0")
    case True
    then show ?thesis by (simp add: toDouble_def)
  next
    case False
    with assms(1) have "1 \<le> b" by simp
    then have "1 \<le> real_of_int b" by simp
    then have lo: "1 / 128 \<le> real_of_int b / 100" by simp
    have "real_of_int b \<le> 10000" using assms(2) by simp
    then have hi: "real_of_int b / 100 \<le> 128" by simp
    from toDouble_relative_error [OF lo hi] obtain r
      where "toDouble (real_of_int b / 100) = Fin r"
        and "\<bar>r - real_of_int b / 100\<bar> \<le> real_of_int b / 100 / 2 ^ 53"
      by blast
    then show ?thesis by simp
  qed
  from first second show ?thesis ..
qed

lemma percent_sum_error:
  assumes "\<forall>p \<in> set hs. 0 \<le> basisPoints (snd p) T \<and> basisPoints (snd p) T \<le> 10000"
  shows "\<bar>sum_list (map (\<lambda>(k, v). valueOf (percentOfSupply v T)) hs)
           - real_of_int (sum_list (map (\<lambda>(k, v). basisPoints v T) hs)) / 100\<bar>
         \<le> real_of_int (sum_list (map (\<lambda>(k, v). basisPoints v T) hs)) / 100 / 2 ^ 53"
  using assms
proof (induction hs)
  case Nil
  then show ?case by simp
next
  case (Cons p hs)
  obtain k v where p: "p = (k, v)" by (cases p)
  define b where "b = basisPoints v T"
  define P where "P = sum_list (map (\<lambda>(k, v). valueOf (percentOfSupply v T)) hs)"
  define S where "S = sum_list (map (\<lambda>(k, v). basisPoints v T) hs)"
  have br: "0 \<le> b \<and> b \<le> 10000"
    using Cons.prems by (simp add: p b_def)
  note e = percent_of_basisPoints [of b]
  have v: "valueOf (percentOfSupply v T) = valueOf (toDouble (real_of_int b / 100))"
    using e br by (simp add: percentOfSupply_def b_def)
  have one: "\<bar>valueOf (percentOfSupply v T) - real_of_int b / 100\<bar>
               \<le> real_of_int b / 100 / 2 ^ 53"
    using e br unfolding v by blast
  have rest: "\<bar>P - real_of_int S / 100\<bar> \<le> real_of_int S / 100 / 2 ^ 53"
    using Cons by (simp add: P_def S_def)
  have comb: "\<bar>(valueOf (percentOfSupply v T) + P)
                  - (real_of_int b / 100 + real_of_int S / 100)\<bar>
                \<le> real_of_int b / 100 / 2 ^ 53 + real_of_int S / 100 / 2 ^ 53"
    using one rest by linarith
  have d1: "real_of_int (b + S) / 100 = real_of_int b / 100 + real_of_int S / 100"
    by (simp add: add_divide_distrib)
  have d2: "(real_of_int b / 100 + real_of_int S / 100) / 2 ^ 53
              = real_of_int b / 100 / 2 ^ 53 + real_of_int S / 100 / 2 ^ 53"
    by (simp add: add_divide_distrib)
  have l: "sum_list (map (\<lambda>(k, v). valueOf (percentOfSupply v T)) (p # hs))
             = valueOf (percentOfSupply v T) + P"
    and r: "sum_list (map (\<lambda>(k, v). basisPoints v T) (p # hs)) = b + S"
    by (simp_all add: p b_def P_def S_def)
  show ?case
    unfolding l r d1 d2 by (rule comb)
qed

text \<open>
  Claim C7. Take any list of token accounts whose balances all parse and whose positive
  per-owner balances have a positive total. The aggregation holds one entry per owner,
  whose balance is the exact integer sum of that owner's accounts (accounts without an
  owner are skipped). The ranking is made of those merged entries: each owner with a
  positive balance once, ordered by merged balance from the largest down, owners with
  equal balances in the order in which they were first seen; the top holders are the
  first ten of that ranking with their shares. The shares in hundredths of a percent,
  \<open>floor(amount * 10000 / totalSupply)\<close>, are exact integers: each falls short of the
  exact share by less than one hundredth of a percent, and over all ranked holders they
  add up to at most 10000 and to more than 10000 less the number of holders. The
  percentage the code returns is that integer divided by 100 as a double, within a
  relative error of \<open>2^-53\<close> of the quotient, and the percentages of all ranked holders
  add up to 100 within 0.01 per holder.
\<close>

theorem holder_aggregation_shares:
  assumes agg: "aggregateByOwner accounts [] = Some byOwner"
    and total: "0 < sum_list (map snd (sortedHolders byOwner))"
  shows "(\<forall>k. map_of byOwner k =
            (if k \<noteq> [] \<and> k \<in> owner ` set accounts
             then Some (sum_list (map parsedAmount (filter (\<lambda>a. owner a = k) accounts)))
             else None))
       \<and> distinct (map fst (sortedHolders byOwner))
       \<and> set (sortedHolders byOwner) = {(k, v). (k, v) \<in> set byOwner \<and> 0 < v}
       \<and> sorted_wrt (\<lambda>p q. snd q \<le> snd p) (sortedHolders byOwner)
       \<and> (\<forall>v. filter (\<lambda>p. snd p = v) (sortedHolders byOwner)
                = filter (\<lambda>p. snd p = v \<and> 0 < v) byOwner)
       \<and> map_option topHolders (holderStatsOf byOwner creatorTxsDesc creatorAddress0) =
            Some (map (\<lambda>(k, v). \<lparr>th_owner = k, amountRaw = v,
                        th_percent = percentOfSupply v (sum_list (map snd (sortedHolders byOwner)))\<rparr>)
                    (take 10 (sortedHolders byOwner)))
       \<and> sum_list (map (\<lambda>(k, v). basisPoints v (sum_list (map snd (sortedHolders byOwner))))
                    (sortedHolders byOwner)) \<le> 10000
       \<and> 10000 < sum_list (map (\<lambda>(k, v). basisPoints v (sum_list (map snd (sortedHolders byOwner))))
                            (sortedHolders byOwner))
                   + int (length (sortedHolders byOwner))
       \<and> (\<forall>(k, v) \<in> set (sortedHolders byOwner).
             basisPoints v (sum_list (map snd (sortedHolders byOwner)))
                 * sum_list (map snd (sortedHolders byOwner)) \<le> v * 10000
             \<and> v * 10000 < (basisPoints v (sum_list (map snd (sortedHolders byOwner))) + 1)
                              * sum_list (map snd (sortedHolders byOwner))
             \<and> percentOfSupply v (sum_list (map snd (sortedHolders byOwner)))
                 = toDouble (real_of_int (basisPoints v (sum_list (map snd (sortedHolders byOwner)))) / 100)
             \<and> \<bar>valueOf (percentOfSupply v (sum_list (map snd (sortedHolders byOwner))))
                  - real_of_int (basisPoints v (sum_list (map snd (sortedHolders byOwner)))) / 100\<bar>
                 \<le> real_of_int (basisPoints v (sum_list (map snd (sortedHolders byOwner)))) / 100 / 2 ^ 53)
       \<and> \<bar>100 - sum_list (map (\<lambda>(k, v). valueOf (percentOfSupply v (sum_list (map snd (sortedHolders byOwner)))))
                            (sortedHolders byOwner))\<bar>
           < real (length (sortedHolders byOwner)) / 100"
proof -
  define hs where "hs = sortedHolders byOwner"
  define T where "T = sum_list (map snd hs)"
  have Tpos: "0 < T" using total by (simp add: T_def hs_def)
  have spec: "distinct (map fst byOwner)"
    "\<And>k. map_of byOwner k =
            (if k \<noteq> [] \<and> k \<in> owner ` set accounts
             then Some (sum_list (map parsedAmount (filter (\<lambda>a. owner a = k) accounts)))
             else None)"
    using aggregate_spec [OF agg] by simp_all
  have dist: "distinct (map fst hs)"
    unfolding hs_def using spec(1) by (rule sortedHolders_distinct)
  have pos: "\<forall>p \<in> set hs. 0 < snd p"
    by (auto simp: hs_def sortedHolders_set)
  have ne: "hs \<noteq> []"
    using Tpos by (auto simp: T_def)
  then have len: "0 < length hs" by simp
  note s = basisPoints_sum [OF Tpos pos]
  define S where "S = sum_list (map (\<lambda>(k, v). basisPoints v T) hs)"
  have s1: "S * T \<le> T * 10000"
    and s2: "T * 10000 + int (length hs) \<le> (S + int (length hs)) * T"
    using s by (simp_all add: S_def T_def)
  have up: "S \<le> 10000"
    using s1 Tpos by (simp add: mult.commute)
  have "T * 10000 < (S + int (length hs)) * T"
    using s2 len by linarith
  then have lowI: "10000 < S + int (length hs)"
    using Tpos by (simp add: mult.commute)
  have range: "\<forall>p \<in> set hs. 0 \<le> basisPoints (snd p) T \<and> basisPoints (snd p) T \<le> 10000"
  proof
    fix p assume m: "p \<in> set hs"
    obtain k v where p: "p = (k, v)" by (cases p)
    have "0 \<le> v" using pos m p by fastforce
    moreover have "v \<le> T"
      unfolding T_def using pos m [unfolded p] by (rule member_le_total)
    ultimately show "0 \<le> basisPoints (snd p) T \<and> basisPoints (snd p) T \<le> 10000"
      using Tpos by (simp add: p basisPoints_range)
  qed
  define P where "P = sum_list (map (\<lambda>(k, v). valueOf (percentOfSupply v T)) hs)"
  have err: "\<bar>P - real_of_int S / 100\<bar> \<le> real_of_int S / 100 / 2 ^ 53"
    unfolding P_def S_def using range by (rule percent_sum_error)
  define s eps n where "s = real_of_int S / 100" and "eps = real_of_int S / 100 / 2 ^ 53"
    and "n = real (length hs) / 100"
  have e1: "\<bar>P - s\<bar> \<le> eps"
    using err by (simp only: s_def eps_def)
  have "real_of_int S \<le> 10000"
    using up by simp
  then have sle: "s \<le> 100"
    by (simp add: s_def)
  have "eps = s / 2 ^ 53" by (simp add: eps_def s_def)
  also have "\<dots> \<le> 100 / 2 ^ 53"
    using sle by (simp add: divide_right_mono)
  also have "\<dots> < (1 / 100 :: real)" by simp
  finally have e2: "eps < 1 / 100" .
  have "10001 \<le> S + int (length hs)"
    using lowI by simp
  then have "real_of_int 10001 \<le> real_of_int (S + int (length hs))"
    by (simp only: of_int_le_iff)
  then have "10001 \<le> real_of_int S + real (length hs)"
    by simp
  then have slow: "100 + 1 / 100 \<le> s + n"
    by (simp add: s_def n_def field_simps)
  have "Suc 0 \<le> length hs"
    using len by linarith
  then have "1 \<le> real (length hs)"
    by simp
  then have n1: "1 / 100 \<le> n"
    by (simp add: n_def)
  have "\<bar>100 - P\<bar> < n"
    using e1 e2 sle slow n1 by linarith
  then have sumP: "\<bar>100 - P\<bar> < real (length hs) / 100"
    by (simp only: n_def)
  have each: "\<forall>(k, v) \<in> set hs.
             basisPoints v T * T \<le> v * 10000
             \<and> v * 10000 < (basisPoints v T + 1) * T
             \<and> percentOfSupply v T = toDouble (real_of_int (basisPoints v T) / 100)
             \<and> \<bar>valueOf (percentOfSupply v T) - real_of_int (basisPoints v T) / 100\<bar>
                 \<le> real_of_int (basisPoints v T) / 100 / 2 ^ 53"
  proof (clarify)
    fix k v assume m: "(k, v) \<in> set hs"
    with pos have v0: "0 \<le> v" by fastforce
    note bb = basisPoints_bounds [OF v0 Tpos]
    from range m have r: "0 \<le> basisPoints v T \<and> basisPoints v T \<le> 10000"
      by fastforce
    note pe = percent_of_basisPoints [of "basisPoints v T"]
    have p1: "percentOfSupply v T = toDouble (real_of_int (basisPoints v T) / 100)"
      using pe r by (simp add: percentOfSupply_def)
    have p2: "\<bar>valueOf (percentOfSupply v T) - real_of_int (basisPoints v T) / 100\<bar>
                 \<le> real_of_int (basisPoints v T) / 100 / 2 ^ 53"
      using pe r unfolding p1 by blast
    from bb p1 p2 show "basisPoints v T * T \<le> v * 10000
             \<and> v * 10000 < (basisPoints v T + 1) * T
             \<and> percentOfSupply v T = toDouble (real_of_int (basisPoints v T) / 100)
             \<and> \<bar>valueOf (percentOfSupply v T) - real_of_int (basisPoints v T) / 100\<bar>
                 \<le> real_of_int (basisPoints v T) / 100 / 2 ^ 53"
      by blast
  qed
  have top: "map_option topHolders (holderStatsOf byOwner creatorTxsDesc creatorAddress0) =
            Some (map (\<lambda>(k, v). \<lparr>th_owner = k, amountRaw = v, th_percent = percentOfSupply v T\<rparr>)
                    (take 10 hs))"
    using Tpos len by (simp add: holderStatsOf_def Let_def T_def hs_def)
  have c1: "\<forall>k. map_of byOwner k =
            (if k \<noteq> [] \<and> k \<in> owner ` set accounts
             then Some (sum_list (map parsedAmount (filter (\<lambda>a. owner a = k) accounts)))
             else None)"
    using spec(2) by blast
  have c3: "set hs = {(k, v). (k, v) \<in> set byOwner \<and> 0 < v}"
    unfolding hs_def by (rule sortedHolders_set)
  have c4: "sorted_wrt (\<lambda>p q. snd q \<le> snd p) hs"
    unfolding hs_def by (rule sortedHolders_ranked)
  have c5: "\<forall>v. filter (\<lambda>p. snd p = v) hs = filter (\<lambda>p. snd p = v \<and> 0 < v) byOwner"
    unfolding hs_def by (simp only: sortedHolders_stable simp_thms)
  have c7: "sum_list (map (\<lambda>(k, v). basisPoints v T) hs) \<le> 10000"
    using up by (simp only: S_def)
  have c8: "10000 < sum_list (map (\<lambda>(k, v). basisPoints v T) hs) + int (length hs)"
    using lowI by (simp only: S_def)
  have c10: "\<bar>100 - sum_list (map (\<lambda>(k, v). valueOf (percentOfSupply v T)) hs)\<bar>
               < real (length hs) / 100"
    using sumP by (simp only: P_def)
  from c1 dist c3 c4 c5 top c7 c8 each c10 show ?thesis
    unfolding T_def hs_def by (intro conjI)
qed

text \<open>
  The sample pins the ranking down: accounts of one owner are merged before the order is
  taken (\<open>alice\<close> leads with 300 + 500, \<open>bob\<close> is third with 50 + 50), the empty balance is
  left out, \<open>hugo\<close> stays ahead of \<open>ivan\<close> at 40 each, and of twelve holders the top ten
  are kept.
\<close>

lemma ranked_sample_order:
  "sortedHolders rankedByOwner =
     [(''alice'', 800), (''carol'', 700), (''bob'', 100), (''erin'', 90), (''judy'', 80),
      (''kate'', 70), (''gina'', 60), (''hugo'', 40), (''ivan'', 40), (''dave'', 20),
      (''frank'', 10), (''liam'', 5)]"
  by code_simp

theorem holder_aggregation_shares_witness:
  "aggregateByOwner rankedAccounts [] = Some rankedByOwner
   \<and> 0 < sum_list (map snd (sortedHolders rankedByOwner))
   \<and> map_of rankedByOwner ''alice''
       = Some (sum_list (map parsedAmount (filter (\<lambda>a. owner a = ''alice'') rankedAccounts)))
   \<and> sorted_wrt (\<lambda>p q. snd q \<le> snd p) (sortedHolders rankedByOwner)
   \<and> map_option (map (\<lambda>h. (th_owner h, amountRaw h)))
        (map_option topHolders (holderStatsOf rankedByOwner [] ''payer''))
       = Some [(''alice'', 800), (''carol'', 700), (''bob'', 100), (''erin'', 90),
               (''judy'', 80), (''kate'', 70), (''gina'', 60), (''hugo'', 40),
               (''ivan'', 40), (''dave'', 20)]
   \<and> sum_list (map (\<lambda>(k, v). basisPoints v (sum_list (map snd (sortedHolders rankedByOwner))))
                (sortedHolders rankedByOwner)) \<le> 10000
   \<and> 10000 < sum_list (map (\<lambda>(k, v). basisPoints v (sum_list (map snd (sortedHolders rankedByOwner))))
                        (sortedHolders rankedByOwner))
               + int (length (sortedHolders rankedByOwner))
   \<and> \<bar>100 - sum_list (map (\<lambda>(k, v). valueOf (percentOfSupply v (sum_list (map snd (sortedHolders rankedByOwner)))))
                        (sortedHolders rankedByOwner))\<bar>
       < real (length (sortedHolders rankedByOwner)) / 100"
proof -
  have a: "aggregateByOwner rankedAccounts [] = Some rankedByOwner"
    by code_simp
  have b: "0 < sum_list (map snd (sortedHolders rankedByOwner))"
    by code_simp
  note all = holder_aggregation_shares [OF a b, of "[]" "''payer''"]
  have al: "''alice'' \<noteq> [] \<and> ''alice'' \<in> owner ` set rankedAccounts"
    by (simp add: rankedAccounts_def)
  from all have "\<forall>k. map_of rankedByOwner k =
            (if k \<noteq> [] \<and> k \<in> owner ` set rankedAccounts
             then Some (sum_list (map parsedAmount (filter (\<lambda>a. owner a = k) rankedAccounts)))
             else None)"
    by (rule conjunct1)
  then have e: "map_of rankedByOwner ''alice'' =
            (if ''alice'' \<noteq> [] \<and> ''alice'' \<in> owner ` set rankedAccounts
             then Some (sum_list (map parsedAmount (filter (\<lambda>a. owner a = ''alice'') rankedAccounts)))
             else None)"
    by (rule spec)
  note c1 = trans [OF e if_P [OF al]]
  note rest3 = all [THEN conjunct2, THEN conjunct2, THEN conjunct2]
  note c4 = rest3 [THEN conjunct1]
  note top = rest3 [THEN conjunct2, THEN conjunct2, THEN conjunct1]
  note rest6 = rest3 [THEN conjunct2, THEN conjunct2, THEN conjunct2]
  note c7 = rest6 [THEN conjunct1]
  note c8 = rest6 [THEN conjunct2, THEN conjunct1]
  note c10 = rest6 [THEN conjunct2, THEN conjunct2, THEN conjunct2]
  have ev: "map (\<lambda>h. (th_owner h, amountRaw h))
              (map (\<lambda>(k, v). \<lparr>th_owner = k, amountRaw = v,
                     th_percent = percentOfSupply v (sum_list (map snd (sortedHolders rankedByOwner)))\<rparr>)
                 (take 10 (sortedHolders rankedByOwner)))
            = [(''alice'', 800), (''carol'', 700), (''bob'', 100), (''erin'', 90),
               (''judy'', 80), (''kate'', 70), (''gina'', 60), (''hugo'', 40),
               (''ivan'', 40), (''dave'', 20)]"
    by code_simp
  have c6: "map_option (map (\<lambda>h. (th_owner h, amountRaw h)))
        (map_option topHolders (holderStatsOf rankedByOwner [] ''payer''))
       = Some [(''alice'', 800), (''carol'', 700), (''bob'', 100), (''erin'', 90),
               (''judy'', 80), (''kate'', 70), (''gina'', 60), (''hugo'', 40),
               (''ivan'', 40), (''dave'', 20)]"
    by (simp only: top option.map ev)
  from a b c1 c4 c6 c7 c8 c10 show ?thesis
    by (intro conjI)
qed

text \<open>
  In the sample the shares in hundredths of a percent add up to 9994. The percentage that
  is returned is the double next to the hundredths: a thousandth of the supply gives the
  double next to 0.1, which lies a little above a tenth of a percent.
\<close>

lemma ranked_sample_values:
  "sum_list (map (\<lambda>(k, v). basisPoints v (sum_list (map snd (sortedHolders rankedByOwner))))
              (sortedHolders rankedByOwner)) = 9994
   \<and> percentOfSupply 1 1000 = Fin (3602879701896397 / 36028797018963968)
   \<and> (1 / 10 :: real) < 3602879701896397 / 36028797018963968"
  by code_simp

subsection \<open>The request handler\<close>

lemma getApiKey_configured:
  "getApiKey env = Inr k \<Longrightarrow>
     (case HELIUS_API_KEY env of None \<Rightarrow> True | Some raw \<Rightarrow> trim raw = []) = False"
  by (auto simp: getApiKey_def Let_def split: option.splits if_splits)

lemma getTransactionsByAddress_configured:
  "getTransactionsByAddress env a ord n = Inr txs \<Longrightarrow>
     (case HELIUS_API_KEY env of None \<Rightarrow> True | Some raw \<Rightarrow> trim raw = []) = False"
  by (auto simp: getTransactionsByAddress_def getApiKey_configured split: sum.splits)

text \<open>
  The handler once the request has come as far as the creator lookup: the parameter is a
  well-formed address, the mint-authority stage has returned, and the lookup has
  returned.
\<close>

lemma GET_after_lookup:
  assumes "trim m \<noteq> []" and "isValidSolanaAddress (trim m)"
    and "mintAuthorityBlock env (trim m) (snd (snd (assetBlock env (trim m)))) = Inr canMint"
    and "getTransactionsByAddress env (trim m) Asc 1 = Inr mintTxsAsc"
  shows "GET env (Some m) =
     (case Option.bind (first mintTxsAsc) feePayer of
        None \<Rightarrow> JsonError (''Could not determine token creator ''
                              @ ''(no transaction history for this address)'') 404
      | Some c \<Rightarrow>
          if c = [] then JsonError (''Could not determine token creator ''
                                     @ ''(no transaction history for this address)'') 404
          else (case promiseAll2 (descSettlesFirst env)
                       (getTransactionsByAddress env c Asc 1)
                       (getTransactionsByAddress env c Desc 100) of
                  Inl e \<Rightarrow> errorResponse e
                | Inr (creatorTxsAsc, creatorTxsDesc) \<Rightarrow>
                    JsonResult (assemble env (trim m) (fst (assetBlock env (trim m)))
                                  (fst (snd (assetBlock env (trim m)))) canMint c
                                  (Option.bind (first mintTxsAsc) timestamp)
                                  creatorTxsAsc creatorTxsDesc)))"
  using assms getTransactionsByAddress_configured [OF assms(4)]
  by (cases "assetBlock env (trim m)")
     (simp add: GET_def analyze_def Let_def split: option.splits sum.splits prod.splits)

text \<open>
  Claim C9. When the lookup of the mint's earliest transaction returns an empty list, or
  a transaction without a fee payer, the handler answers with status 404 and the message
  that the creator could not be determined, and with no result. The lookup is made only
  by a request whose parameter is a well-formed address and whose mint-authority stage
  has returned: these are the first three hypotheses.
\<close>

theorem no_history_is_not_found:
  assumes "trim m \<noteq> []" and "isValidSolanaAddress (trim m)"
    and "mintAuthorityBlock env (trim m) (snd (snd (assetBlock env (trim m)))) = Inr canMint"
    and "getTransactionsByAddress env (trim m) Asc 1 = Inr mintTxsAsc"
    and "mintTxsAsc = [] \<or> feePayer (hd mintTxsAsc) = None \<or> feePayer (hd mintTxsAsc) = Some []"
  shows "GET env (Some m) =
           JsonError ''Could not determine token creator (no transaction history for this address)'' 404
         \<and> statusOf (GET env (Some m)) = 404
         \<and> resultOf (GET env (Some m)) = None"
proof -
  have "Option.bind (first mintTxsAsc) feePayer = None
        \<or> Option.bind (first mintTxsAsc) feePayer = Some []"
    using assms(5) by (cases mintTxsAsc) (auto simp: first_def)
  then show ?thesis
    by (auto simp: GET_after_lookup [OF assms(1-4)])
qed

theorem no_history_is_not_found_witness:
  "trim sampleMint \<noteq> [] \<and> isValidSolanaAddress (trim sampleMint)
   \<and> mintAuthorityBlock noHistoryEnv (trim sampleMint)
        (snd (snd (assetBlock noHistoryEnv (trim sampleMint)))) = Inr (Some True)
   \<and> getTransactionsByAddress noHistoryEnv (trim sampleMint) Asc 1 = Inr []
   \<and> statusOf (GET noHistoryEnv (Some sampleMint)) = 404
   \<and> resultOf (GET noHistoryEnv (Some sampleMint)) = None"
proof -
  have a: "trim sampleMint \<noteq> []" by code_simp
  have b: "isValidSolanaAddress (trim sampleMint)" by code_simp
  have c: "mintAuthorityBlock noHistoryEnv (trim sampleMint)
        (snd (snd (assetBlock noHistoryEnv (trim sampleMint)))) = Inr (Some True)"
    by code_simp
  have d: "getTransactionsByAddress noHistoryEnv (trim sampleMint) Asc 1 = Inr []"
    by code_simp
  have e: "[] = [] \<or> feePayer (hd []) = None \<or> feePayer (hd []) = Some []"
    by simp
  from no_history_is_not_found [OF a b c d e] a b c d show ?thesis
    by blast
qed

lemma errorResponse_no_result:
  "resultOf (errorResponse e) = None \<and> statusOf (errorResponse e) \<in> {401, 503, 500}"
  by (simp add: errorResponse_def Let_def)

lemma promiseAll2_rejects:
  assumes "p = Inl e \<or> q = Inl e"
  shows "\<exists>e'. (p = Inl e' \<or> q = Inl e') \<and> promiseAll2 b p q = Inl e'"
  using assms by (cases p; cases q) (auto simp: promiseAll2_def)

lemma creator_of_assemble:
  "canMintUnlimited (creator (assemble env mint0 nm sy cm c ts a d)) = cm
   \<and> totalTxCount (creator (assemble env mint0 nm sy cm c ts a d)) = Fin (real (length d))
   \<and> accountAgeDays (creator (assemble env mint0 nm sy cm c ts a d)) =
       map_option (\<lambda>t. num_div_const (num_sub (Fin (dateNow env / 1000)) t) 86400)
         (orElse (Option.bind (first a) timestamp) ts)"
  by (simp add: assemble_def computeRiskScore_def Let_def case_prod_beta)

text \<open>
  Claim C2, as the code has it. Once the creator is resolved, a throw of either of the
  two concurrent creator-history fetches fails the whole request: the handler answers
  with the error response the outer \<open>catch\<close> builds from one of the thrown values, and
  with no result. When both fetches return, whatever the asset, holder, market and
  sibling lookups do, the request succeeds; the sample count is the length of the
  recent sample (0 for an empty one), and the account age is taken from the creator's
  earliest transaction, else from the mint's creation transaction, and is absent only
  when neither has a timestamp.
\<close>

theorem creator_history_outcomes:
  assumes "trim m \<noteq> []" and "isValidSolanaAddress (trim m)"
    and "mintAuthorityBlock env (trim m) (snd (snd (assetBlock env (trim m)))) = Inr canMint"
    and "getTransactionsByAddress env (trim m) Asc 1 = Inr mintTxsAsc"
    and "Option.bind (first mintTxsAsc) feePayer = Some c" and "c \<noteq> []"
  shows "(\<forall>e. getTransactionsByAddress env c Asc 1 = Inl e
              \<or> getTransactionsByAddress env c Desc 100 = Inl e \<longrightarrow>
            resultOf (GET env (Some m)) = None
            \<and> (\<exists>e'. (getTransactionsByAddress env c Asc 1 = Inl e'
                      \<or> getTransactionsByAddress env c Desc 100 = Inl e')
                     \<and> GET env (Some m) = errorResponse e'))
       \<and> (\<forall>a d. getTransactionsByAddress env c Asc 1 = Inr a
                \<and> getTransactionsByAddress env c Desc 100 = Inr d \<longrightarrow>
            statusOf (GET env (Some m)) = 200
            \<and> map_option (\<lambda>r. totalTxCount (creator r)) (resultOf (GET env (Some m)))
                = Some (Fin (real (length d)))
            \<and> map_option (\<lambda>r. accountAgeDays (creator r)) (resultOf (GET env (Some m)))
                = Some (map_option
                          (\<lambda>t. num_div_const (num_sub (Fin (dateNow env / 1000)) t) 86400)
                          (orElse (Option.bind (first a) timestamp)
                                  (Option.bind (first mintTxsAsc) timestamp))))"
proof (intro conjI allI impI)
  fix e
  assume "getTransactionsByAddress env c Asc 1 = Inl e
          \<or> getTransactionsByAddress env c Desc 100 = Inl e"
  from promiseAll2_rejects [OF this, of "descSettlesFirst env"]
  obtain e' where e': "getTransactionsByAddress env c Asc 1 = Inl e'
                       \<or> getTransactionsByAddress env c Desc 100 = Inl e'"
    and p: "promiseAll2 (descSettlesFirst env) (getTransactionsByAddress env c Asc 1)
              (getTransactionsByAddress env c Desc 100) = Inl e'"
    by blast
  have g: "GET env (Some m) = errorResponse e'"
    using assms(5,6) p by (simp add: GET_after_lookup [OF assms(1-4)])
  show "resultOf (GET env (Some m)) = None"
    by (simp add: g errorResponse_no_result)
  show "\<exists>e'. (getTransactionsByAddress env c Asc 1 = Inl e'
               \<or> getTransactionsByAddress env c Desc 100 = Inl e')
              \<and> GET env (Some m) = errorResponse e'"
    using e' g by blast
next
  fix a d
  assume ok: "getTransactionsByAddress env c Asc 1 = Inr a
              \<and> getTransactionsByAddress env c Desc 100 = Inr d"
  have g: "GET env (Some m) =
             JsonResult (assemble env (trim m) (fst (assetBlock env (trim m)))
                           (fst (snd (assetBlock env (trim m)))) canMint c
                           (Option.bind (first mintTxsAsc) timestamp) a d)"
    using assms(5,6) ok by (simp add: GET_after_lookup [OF assms(1-4)] promiseAll2_def)
  show "statusOf (GET env (Some m)) = 200"
    by (simp add: g)
  show "map_option (\<lambda>r. totalTxCount (creator r)) (resultOf (GET env (Some m)))
          = Some (Fin (real (length d)))"
    by (simp add: g creator_of_assemble)
  show "map_option (\<lambda>r. accountAgeDays (creator r)) (resultOf (GET env (Some m)))
          = Some (map_option
                    (\<lambda>t. num_div_const (num_sub (Fin (dateNow env / 1000)) t) 86400)
                    (orElse (Option.bind (first a) timestamp)
                            (Option.bind (first mintTxsAsc) timestamp)))"
    by (simp add: g creator_of_assemble)
qed

text \<open>
  The claim as the specification words it fails: in \<open>historyFailsEnv\<close> the creator is
  resolved, the fetch of the recent sample is rejected, and the request ends in the
  error response with status 500 instead of a result with a sample count of 0.
\<close>

theorem creator_history_failure_fails_request:
  "getTransactionsByAddress historyFailsEnv sampleMint Asc 1 = Inr [sampleTx ''CREATE'']
   \<and> getTransactionsByAddress historyFailsEnv ''payer'' Desc 100
       = Inl (Error ''Helius API error 500: upstream'')
   \<and> GET historyFailsEnv (Some sampleMint) = JsonError ''Helius API error 500: upstream'' 500
   \<and> resultOf (GET historyFailsEnv (Some sampleMint)) = None"
  by code_simp

theorem creator_history_outcomes_witness:
  "trim sampleMint \<noteq> [] \<and> isValidSolanaAddress (trim sampleMint)
   \<and> mintAuthorityBlock sampleEnv (trim sampleMint)
        (snd (snd (assetBlock sampleEnv (trim sampleMint)))) = Inr (Some True)
   \<and> getTransactionsByAddress sampleEnv (trim sampleMint) Asc 1 = Inr [sampleTx ''CREATE'']
   \<and> Option.bind (first [sampleTx ''CREATE'']) feePayer = Some ''payer''
   \<and> getTransactionsByAddress historyFailsEnv ''payer'' Desc 100
       = Inl (Error ''Helius API error 500: upstream'')
   \<and> resultOf (GET historyFailsEnv (Some sampleMint)) = None
   \<and> getTransactionsByAddress sampleEnv ''payer'' Asc 1 = Inr [sampleTx ''TRANSFER'']
   \<and> getTransactionsByAddress sampleEnv ''payer'' Desc 100
       = Inr [transferTx 200 ''alice'', transferTx 100 ''alice'']
   \<and> statusOf (GET sampleEnv (Some sampleMint)) = 200
   \<and> map_option (\<lambda>r. totalTxCount (creator r)) (resultOf (GET sampleEnv (Some sampleMint)))
       = Some (Fin 2)"
proof -
  have a: "trim sampleMint \<noteq> []" by code_simp
  have b: "isValidSolanaAddress (trim sampleMint)" by code_simp
  have c: "mintAuthorityBlock sampleEnv (trim sampleMint)
        (snd (snd (assetBlock sampleEnv (trim sampleMint)))) = Inr (Some True)"
    by code_simp
  have c': "mintAuthorityBlock historyFailsEnv (trim sampleMint)
        (snd (snd (assetBlock historyFailsEnv (trim sampleMint)))) = Inr (Some True)"
    by code_simp
  have d: "getTransactionsByAddress sampleEnv (trim sampleMint) Asc 1 = Inr [sampleTx ''CREATE'']"
    by code_simp
  have d': "getTransactionsByAddress historyFailsEnv (trim sampleMint) Asc 1
              = Inr [sampleTx ''CREATE'']"
    by code_simp
  have e: "Option.bind (first [sampleTx ''CREATE'']) feePayer = Some ''payer''"
    by code_simp
  have f: "''payer'' \<noteq> []" by simp
  have bad: "getTransactionsByAddress historyFailsEnv ''payer'' Desc 100
               = Inl (Error ''Helius API error 500: upstream'')"
    by code_simp
  have ok1: "getTransactionsByAddress sampleEnv ''payer'' Asc 1 = Inr [sampleTx ''TRANSFER'']"
    by code_simp
  have ok2: "getTransactionsByAddress sampleEnv ''payer'' Desc 100
               = Inr [transferTx 200 ''alice'', transferTx 100 ''alice'']"
    by code_simp
  have r1: "resultOf (GET historyFailsEnv (Some sampleMint)) = None"
    using creator_history_outcomes [OF a b c' d' e f] bad by blast
  have r2: "statusOf (GET sampleEnv (Some sampleMint)) = 200
     \<and> map_option (\<lambda>r. totalTxCount (creator r)) (resultOf (GET sampleEnv (Some sampleMint)))
         = Some (Fin (real (length [transferTx 200 ''alice'', transferTx 100 ''alice''])))"
    using creator_history_outcomes [OF a b c d e f] ok1 ok2 by blast
  from a b c d e bad r1 ok1 ok2 r2 show ?thesis
    by simp
qed

subsection \<open>Mint authority\<close>

lemma assetBlock_structured:
  assumes "getAsset env mint0 = Inr (Some asset)" and "token_info asset = Some info"
  shows "snd (snd (assetBlock env mint0)) =
           Some (case mint_authority info of None \<Rightarrow> False
                 | Some ma \<Rightarrow> ma \<noteq> [] \<and> ma \<noteq> ''null'')"
  using assms by (simp add: assetBlock_def split: option.splits)

lemma assetBlock_absent:
  assumes "(\<exists>e. getAsset env mint0 = Inl e) \<or> getAsset env mint0 = Inr None
           \<or> (\<exists>asset. getAsset env mint0 = Inr (Some asset) \<and> token_info asset = None)"
  shows "snd (snd (assetBlock env mint0)) = None"
  using assms by (auto simp: assetBlock_def)

text \<open>
  Claim C3, as the code has it. The structured asset metadata comes first: when the asset
  has token information, the authority is active exactly when \<open>mint_authority\<close> is a
  non-empty string other than \<open>null\<close>, and the raw account is not consulted. When the
  asset gives nothing (\<open>getAsset\<close> throws, returns \<open>null\<close>, or the asset has no token
  information), the answer of \<open>getMintAuthoritySet\<close> is the state: byte 10 of the account
  data equal to 1 is active, any other value is revoked, and an error reply, missing
  data or fewer than 11 bytes is unknown. Whatever state the stage returns, unknown
  included, the analysis goes on with it: when the creator lookups return, the request
  succeeds and the result carries that state.
\<close>

theorem mint_authority_sources:
  "(\<forall>asset info. getAsset env mint0 = Inr (Some asset) \<and> token_info asset = Some info \<longrightarrow>
      mintAuthorityBlock env mint0 (snd (snd (assetBlock env mint0))) =
        Inr (Some (case mint_authority info of None \<Rightarrow> False
                   | Some ma \<Rightarrow> ma \<noteq> [] \<and> ma \<noteq> ''null'')))
   \<and> (\<forall>k reply.
        ((\<exists>e. getAsset env mint0 = Inl e) \<or> getAsset env mint0 = Inr None
         \<or> (\<exists>asset. getAsset env mint0 = Inr (Some asset) \<and> token_info asset = None))
        \<and> getApiKey env = Inr k \<and> httpAccountInfo env mint0 = Inr reply \<longrightarrow>
        mintAuthorityBlock env mint0 (snd (snd (assetBlock env mint0))) =
          Inr (if reply_error reply then None
               else case reply_data reply of
                      None \<Rightarrow> None
                    | Some buf \<Rightarrow> if length buf < 11 then None else Some (buf ! 10 = 1)))
   \<and> (\<forall>m canMint mintTxsAsc c a d.
        mint0 = trim m \<and> trim m \<noteq> [] \<and> isValidSolanaAddress (trim m)
        \<and> mintAuthorityBlock env mint0 (snd (snd (assetBlock env mint0))) = Inr canMint
        \<and> getTransactionsByAddress env mint0 Asc 1 = Inr mintTxsAsc
        \<and> Option.bind (first mintTxsAsc) feePayer = Some c \<and> c \<noteq> []
        \<and> getTransactionsByAddress env c Asc 1 = Inr a
        \<and> getTransactionsByAddress env c Desc 100 = Inr d \<longrightarrow>
        statusOf (GET env (Some m)) = 200
        \<and> map_option (\<lambda>r. canMintUnlimited (creator r)) (resultOf (GET env (Some m)))
            = Some canMint)"
proof (intro conjI allI impI)
  fix asset info
  assume "getAsset env mint0 = Inr (Some asset) \<and> token_info asset = Some info"
  then show "mintAuthorityBlock env mint0 (snd (snd (assetBlock env mint0))) =
        Inr (Some (case mint_authority info of None \<Rightarrow> False
                   | Some ma \<Rightarrow> ma \<noteq> [] \<and> ma \<noteq> ''null''))"
    by (simp add: assetBlock_structured mintAuthorityBlock_def)
next
  fix k reply
  assume h: "((\<exists>e. getAsset env mint0 = Inl e) \<or> getAsset env mint0 = Inr None
         \<or> (\<exists>asset. getAsset env mint0 = Inr (Some asset) \<and> token_info asset = None))
        \<and> getApiKey env = Inr k \<and> httpAccountInfo env mint0 = Inr reply"
  then have "snd (snd (assetBlock env mint0)) = None"
    by (intro assetBlock_absent) blast
  then show "mintAuthorityBlock env mint0 (snd (snd (assetBlock env mint0))) =
          Inr (if reply_error reply then None
               else case reply_data reply of
                      None \<Rightarrow> None
                    | Some buf \<Rightarrow> if length buf < 11 then None else Some (buf ! 10 = 1))"
    using h
    by (simp add: mintAuthorityBlock_def getMintAuthoritySet_def
        MINT_AUTHORITY_OPTION_OFFSET_def split: option.splits)
next
  fix m canMint mintTxsAsc c a d
  assume h: "mint0 = trim m \<and> trim m \<noteq> [] \<and> isValidSolanaAddress (trim m)
        \<and> mintAuthorityBlock env mint0 (snd (snd (assetBlock env mint0))) = Inr canMint
        \<and> getTransactionsByAddress env mint0 Asc 1 = Inr mintTxsAsc
        \<and> Option.bind (first mintTxsAsc) feePayer = Some c \<and> c \<noteq> []
        \<and> getTransactionsByAddress env c Asc 1 = Inr a
        \<and> getTransactionsByAddress env c Desc 100 = Inr d"
  then have reach: "trim m \<noteq> []" "isValidSolanaAddress (trim m)"
    "mintAuthorityBlock env (trim m) (snd (snd (assetBlock env (trim m)))) = Inr canMint"
    "getTransactionsByAddress env (trim m) Asc 1 = Inr mintTxsAsc"
    by auto
  have g: "GET env (Some m) =
             JsonResult (assemble env (trim m) (fst (assetBlock env (trim m)))
                           (fst (snd (assetBlock env (trim m)))) canMint c
                           (Option.bind (first mintTxsAsc) timestamp) a d)"
    using h by (simp add: GET_after_lookup [OF reach] promiseAll2_def)
  show "statusOf (GET env (Some m)) = 200"
    by (simp add: g)
  show "map_option (\<lambda>r. canMintUnlimited (creator r)) (resultOf (GET env (Some m)))
          = Some canMint"
    by (simp add: g creator_of_assemble)
qed

text \<open>
  The claim as the specification words it fails: in \<open>assetFailsEnv\<close> the first source
  fails (\<open>getAsset\<close> throws), yet the result does not say unknown: the fallback reads
  byte 10 and the state is active.
\<close>

theorem failed_asset_source_state_known:
  "getAsset assetFailsEnv sampleMint = Inl (Error ''Helius getAsset error: Unknown'')
   \<and> statusOf (GET assetFailsEnv (Some sampleMint)) = 200
   \<and> map_option (\<lambda>r. canMintUnlimited (creator r)) (resultOf (GET assetFailsEnv (Some sampleMint)))
       = Some (Some True)"
  by code_simp

theorem mint_authority_sources_witness:
  "getAsset noAuthorityDataEnv sampleMint = Inr None
   \<and> getApiKey noAuthorityDataEnv = Inr ''test-key''
   \<and> httpAccountInfo noAuthorityDataEnv sampleMint = Inr \<lparr>reply_error = True, reply_data = None\<rparr>
   \<and> mintAuthorityBlock noAuthorityDataEnv sampleMint
        (snd (snd (assetBlock noAuthorityDataEnv sampleMint))) = Inr None
   \<and> sampleMint = trim sampleMint \<and> isValidSolanaAddress (trim sampleMint)
   \<and> getTransactionsByAddress noAuthorityDataEnv sampleMint Asc 1 = Inr [sampleTx ''CREATE'']
   \<and> getTransactionsByAddress noAuthorityDataEnv ''payer'' Asc 1 = Inr [sampleTx ''TRANSFER'']
   \<and> getTransactionsByAddress noAuthorityDataEnv ''payer'' Desc 100
       = Inr [transferTx 200 ''alice'', transferTx 100 ''alice'']
   \<and> statusOf (GET noAuthorityDataEnv (Some sampleMint)) = 200
   \<and> map_option (\<lambda>r. canMintUnlimited (creator r))
        (resultOf (GET noAuthorityDataEnv (Some sampleMint))) = Some None"
proof -
  note all = mint_authority_sources [of noAuthorityDataEnv sampleMint]
  have a: "getAsset noAuthorityDataEnv sampleMint = Inr None" by code_simp
  have k: "getApiKey noAuthorityDataEnv = Inr ''test-key''" by code_simp
  have r: "httpAccountInfo noAuthorityDataEnv sampleMint
             = Inr \<lparr>reply_error = True, reply_data = None\<rparr>"
    by code_simp
  have t: "sampleMint = trim sampleMint" by code_simp
  have n: "trim sampleMint \<noteq> []" by code_simp
  have v: "isValidSolanaAddress (trim sampleMint)" by code_simp
  have l: "getTransactionsByAddress noAuthorityDataEnv sampleMint Asc 1
             = Inr [sampleTx ''CREATE'']"
    by code_simp
  have c: "Option.bind (first [sampleTx ''CREATE'']) feePayer = Some ''payer''" by code_simp
  have h1: "getTransactionsByAddress noAuthorityDataEnv ''payer'' Asc 1
              = Inr [sampleTx ''TRANSFER'']"
    by code_simp
  have h2: "getTransactionsByAddress noAuthorityDataEnv ''payer'' Desc 100
              = Inr [transferTx 200 ''alice'', transferTx 100 ''alice'']"
    by code_simp
  from all a k r have b: "mintAuthorityBlock noAuthorityDataEnv sampleMint
        (snd (snd (assetBlock noAuthorityDataEnv sampleMint))) = Inr None"
    by auto
  from all t n v b l c h1 h2
  have g: "statusOf (GET noAuthorityDataEnv (Some sampleMint)) = 200
        \<and> map_option (\<lambda>r. canMintUnlimited (creator r))
             (resultOf (GET noAuthorityDataEnv (Some sampleMint))) = Some None"
    by blast
  from a k r b t v l h1 h2 g show ?thesis
    by blast
qed

text \<open>
  For the record, the one path of this stage that the statement above leaves open: the
  call of \<open>getMintAuthoritySet\<close> stands outside every guard, so a value it throws
  reaches the outer \<open>catch\<close>.
\<close>

lemma account_lookup_throw_reaches_outer_catch:
  "GET accountLookupFailsEnv (Some sampleMint) = JsonError ''fetch failed'' 500"
  by code_simp

subsection \<open>Transfers out of the creator wallet\<close>

text \<open>
  The entry of a recipient is never overwritten: whatever transfer enters it first in
  list order decides the recorded time.
\<close>

lemma noteNative_keeps: "receivedBy k = Some t \<Longrightarrow> noteNative c ts receivedBy x k = Some t"
  by (auto simp: noteNative_def split: option.splits)

lemma noteToken_keeps: "receivedBy k = Some t \<Longrightarrow> noteToken c ts receivedBy x k = Some t"
  by (auto simp: noteToken_def split: option.splits)

lemma foldl_noteNative_keeps:
  "receivedBy k = Some t \<Longrightarrow> foldl (noteNative c ts) receivedBy xs k = Some t"
  by (induction xs arbitrary: receivedBy) (simp_all add: noteNative_keeps)

lemma foldl_noteToken_keeps:
  "receivedBy k = Some t \<Longrightarrow> foldl (noteToken c ts) receivedBy xs k = Some t"
  by (induction xs arbitrary: receivedBy) (simp_all add: noteToken_keeps)

lemma noteTx_keeps: "receivedBy k = Some t \<Longrightarrow> noteTx c receivedBy tx k = Some t"
  by (simp add: noteTx_def Let_def foldl_noteNative_keeps foldl_noteToken_keeps
      split: option.splits)

lemma foldl_noteTx_keeps:
  "receivedBy k = Some t \<Longrightarrow> foldl (noteTx c) receivedBy txs k = Some t"
  by (induction txs arbitrary: receivedBy) (simp_all add: noteTx_keeps)

lemma first_listed_transfer_decides:
  assumes "noteTx c Map.empty tx k = Some t"
  shows "getWalletsReceivedFromCreator (tx # txs) c k = Some t"
  using assms by (simp add: getWalletsReceivedFromCreator_def foldl_noteTx_keeps)

text \<open>
  Claim C4 does not hold of the code. The sample the collector passes is ordered newest
  first, and a recipient is entered by the first transfer the loops meet: with a
  transfer to \<open>alice\<close> at time 200 listed before one at time 100, the recorded time is
  200, the latest, where the claim (and the comment on \<open>firstReceivedAt\<close>) says 100. The
  same value reaches the result of a whole request.
\<close>

theorem received_from_creator_keeps_first_listed:
  "getWalletsReceivedFromCreator [transferTx 200 ''alice'', transferTx 100 ''alice''] ''payer''
     ''alice'' = Some (Fin 200)
   \<and> map_option (\<lambda>r. map_option (map firstReceivedAt)
                         (Option.bind (holderStats r) creatorConnectedHolders))
        (resultOf (GET sampleEnv (Some sampleMint))) = Some (Some [Some (Fin 200)])"
  by code_simp

end
